theory Spec2Isabelle
  imports Main "HOL-Library.Word"
begin

unbundle bit_operations_syntax

text \<open>
  A model of \<^verbatim>\<open>llama_stack/providers/utils/replay_provider.py\<close>: the class that
  \<^verbatim>\<open>create_replay_provider_class\<close> builds for a protocol, with its cache key
  (\<^verbatim>\<open>_generate_cache_key\<close>), its cache files (\<^verbatim>\<open>_get_cache_path\<close>,
  \<^verbatim>\<open>_load_from_cache\<close>, \<^verbatim>\<open>_save_to_cache\<close>) and its dispatcher (\<^verbatim>\<open>__acall__\<close>).
  Every function takes the disk, and where it matters the state of the real provider,
  and returns them changed; a raise is a value. Calls are taken one after the other;
  the messages that the code prints are left out.
\<close>

section \<open>Python values as the replay provider observes them\<close>

text \<open>
  The proxy of \<^verbatim>\<open>replay_provider.py\<close> never looks inside the arguments and results it
  forwards: it renders them as text (\<^verbatim>\<open>f"{args}_{kwargs}"\<close>, \<^verbatim>\<open>str(response)\<close>), asks for
  \<^verbatim>\<open>type(response).__name__\<close>, and probes \<^verbatim>\<open>model_dump\<close> and \<^verbatim>\<open>dict\<close>. Plain data
  (\<^verbatim>\<open>None\<close>, booleans, integers, strings, lists, tuples, dictionaries) is modelled
  structurally; an instance of any other class is modelled by exactly these observations.
  Strings are lists of code points below 256; floating-point numbers are left out.
\<close>

datatype json =
    JNull
  | JBool bool
  | JInt int
  | JStr string
  | JArr "json list"
  | JObj "(string \<times> json) list"

record pyobj =
  cls_name :: string
  repr_text :: string
  str_text :: string
  model_dump :: "(string \<times> json) list option"
  dict_v1 :: "(string \<times> json) list option"

datatype pyval =
    PNone
  | PBool bool
  | PInt int
  | PStr string
  | PList "pyval list"
  | PTuple "pyval list"
  | PDict "(pyval \<times> pyval) list"
  | PObj pyobj

text \<open>What \<^verbatim>\<open>json.load\<close> hands back for a JSON value.\<close>

fun of_json :: "json \<Rightarrow> pyval" where
  "of_json JNull = PNone"
| "of_json (JBool b) = PBool b"
| "of_json (JInt i) = PInt i"
| "of_json (JStr s) = PStr s"
| "of_json (JArr xs) = PList (map of_json xs)"
| "of_json (JObj kvs) = PDict (map (\<lambda>(k, v). (PStr k, of_json v)) kvs)"

text \<open>Python truthiness of a value read from a JSON file.\<close>

fun truthy_json :: "json \<Rightarrow> bool" where
  "truthy_json JNull = False"
| "truthy_json (JBool b) = b"
| "truthy_json (JInt i) = (i \<noteq> 0)"
| "truthy_json (JStr s) = (s \<noteq> [])"
| "truthy_json (JArr xs) = (xs \<noteq> [])"
| "truthy_json (JObj kvs) = (kvs \<noteq> [])"

subsection \<open>\<^verbatim>\<open>repr\<close> and \<^verbatim>\<open>str\<close>\<close>

definition hex_digit :: "8 word \<Rightarrow> char" where
  "hex_digit n = ''0123456789abcdef'' ! unat (n AND 0x0f)"

definition hex_byte :: "8 word \<Rightarrow> string" where
  "hex_byte b = [hex_digit (drop_bit 4 b), hex_digit b]"

definition unprintable :: "char \<Rightarrow> bool" where
  "unprintable c =
     (let n = (of_char c :: int) in n < 32 \<or> (127 \<le> n \<and> n \<le> 160) \<or> n = 173)"

definition repr_char :: "char \<Rightarrow> char \<Rightarrow> string" where
  "repr_char q c =
     (if c = q \<or> c = CHR 0x5C then [CHR 0x5C, c]
      else if c = CHR 0x09 then [CHR 0x5C, CHR ''t'']
      else if c = CHR 0x0A then [CHR 0x5C, CHR ''n'']
      else if c = CHR 0x0D then [CHR 0x5C, CHR ''r'']
      else if unprintable c then [CHR 0x5C, CHR ''x''] @ hex_byte (of_char c)
      else [c])"

definition repr_str :: "string \<Rightarrow> string" where
  "repr_str s =
     (let q = (if CHR 0x27 \<in> set s \<and> CHR 0x22 \<notin> set s then CHR 0x22 else CHR 0x27)
      in [q] @ concat (map (repr_char q) s) @ [q])"

function dec_digits :: "int \<Rightarrow> string" where
  "dec_digits n =
     (if n < 10 then [char_of (48 + n)] else dec_digits (n div 10) @ [char_of (48 + n mod 10)])"
  by pat_completeness auto
termination
  by (relation "measure nat") auto

definition repr_int :: "int \<Rightarrow> string" where
  "repr_int i = (if i < 0 then ''-'' @ dec_digits (- i) else dec_digits i)"

fun comma_join :: "string list \<Rightarrow> string" where
  "comma_join [] = []"
| "comma_join [x] = x"
| "comma_join (x # y # ys) = x @ '', '' @ comma_join (y # ys)"

fun py_repr :: "pyval \<Rightarrow> string" where
  "py_repr PNone = ''None''"
| "py_repr (PBool b) = (if b then ''True'' else ''False'')"
| "py_repr (PInt i) = repr_int i"
| "py_repr (PStr s) = repr_str s"
| "py_repr (PList xs) = ''['' @ comma_join (map py_repr xs) @ '']''"
| "py_repr (PTuple xs) =
     (case xs of
        [x] \<Rightarrow> ''('' @ py_repr x @ '',)''
      | _ \<Rightarrow> ''('' @ comma_join (map py_repr xs) @ '')'')"
| "py_repr (PDict kvs) =
     ''{'' @ comma_join (map (\<lambda>(k, v). py_repr k @ '': '' @ py_repr v) kvs) @ ''}''"
| "py_repr (PObj ob) = repr_text ob"

definition py_str :: "pyval \<Rightarrow> string" where
  "py_str v = (case v of PStr s \<Rightarrow> s | PObj ob \<Rightarrow> str_text ob | _ \<Rightarrow> py_repr v)"

subsection \<open>\<^verbatim>\<open>str.lower\<close>, \<^verbatim>\<open>str.replace\<close> and \<^verbatim>\<open>str.encode\<close>\<close>

definition lower_char :: "char \<Rightarrow> char" where
  "lower_char c =
     (let n = (of_char c :: int)
      in if (65 \<le> n \<and> n \<le> 90) \<or> (192 \<le> n \<and> n \<le> 222 \<and> n \<noteq> 215) then char_of (n + 32) else c)"

definition py_lower :: "string \<Rightarrow> string" where
  "py_lower s = map lower_char s"

text \<open>\<^verbatim>\<open>s.replace(old, new)\<close> for a non-empty \<^verbatim>\<open>old\<close>: non-overlapping occurrences, leftmost first.\<close>

function py_replace :: "string \<Rightarrow> string \<Rightarrow> string \<Rightarrow> string" where
  "py_replace old new [] = []"
| "py_replace old new (c # cs) =
     (if old \<noteq> [] \<and> take (length old) (c # cs) = old
      then new @ py_replace old new (drop (length old) (c # cs))
      else c # py_replace old new cs)"
  by pat_completeness auto
termination
  by (relation "measure (\<lambda>(old, new, s). length s)") auto

definition utf8_char :: "char \<Rightarrow> 8 word list" where
  "utf8_char c =
     (let b = (of_char c :: 8 word)
      in if b < 0x80 then [b] else [0xC0 OR drop_bit 6 b, 0x80 OR (b AND 0x3F)])"

definition encode_utf8 :: "string \<Rightarrow> 8 word list" where
  "encode_utf8 s = concat (map utf8_char s)"

section \<open>\<^verbatim>\<open>hashlib.md5\<close>\<close>

text \<open>
  The digest algorithm of RFC 1321 on 32-bit words: the message is padded to a multiple of
  64 bytes, each block runs 64 steps on four words, and the digest is the four words in
  little-endian byte order.
\<close>

type_synonym u32 = "32 word"

definition md5_K :: "u32 list" where
  "md5_K =
    [0xd76aa478, 0xe8c7b756, 0x242070db, 0xc1bdceee,
     0xf57c0faf, 0x4787c62a, 0xa8304613, 0xfd469501,
     0x698098d8, 0x8b44f7af, 0xffff5bb1, 0x895cd7be,
     0x6b901122, 0xfd987193, 0xa679438e, 0x49b40821,
     0xf61e2562, 0xc040b340, 0x265e5a51, 0xe9b6c7aa,
     0xd62f105d, 0x02441453, 0xd8a1e681, 0xe7d3fbc8,
     0x21e1cde6, 0xc33707d6, 0xf4d50d87, 0x455a14ed,
     0xa9e3e905, 0xfcefa3f8, 0x676f02d9, 0x8d2a4c8a,
     0xfffa3942, 0x8771f681, 0x6d9d6122, 0xfde5380c,
     0xa4beea44, 0x4bdecfa9, 0xf6bb4b60, 0xbebfbc70,
     0x289b7ec6, 0xeaa127fa, 0xd4ef3085, 0x04881d05,
     0xd9d4d039, 0xe6db99e5, 0x1fa27cf8, 0xc4ac5665,
     0xf4292244, 0x432aff97, 0xab9423a7, 0xfc93a039,
     0x655b59c3, 0x8f0ccc92, 0xffeff47d, 0x85845dd1,
     0x6fa87e4f, 0xfe2ce6e0, 0xa3014314, 0x4e0811a1,
     0xf7537e82, 0xbd3af235, 0x2ad7d2bb, 0xeb86d391]"

definition md5_s :: "nat list" where
  "md5_s =
    [7, 12, 17, 22, 7, 12, 17, 22, 7, 12, 17, 22, 7, 12, 17, 22,
     5, 9, 14, 20, 5, 9, 14, 20, 5, 9, 14, 20, 5, 9, 14, 20,
     4, 11, 16, 23, 4, 11, 16, 23, 4, 11, 16, 23, 4, 11, 16, 23,
     6, 10, 15, 21, 6, 10, 15, 21, 6, 10, 15, 21, 6, 10, 15, 21]"

definition md5_F :: "nat \<Rightarrow> u32 \<Rightarrow> u32 \<Rightarrow> u32 \<Rightarrow> u32" where
  "md5_F i b c d =
     (if i < 16 then (b AND c) OR (NOT b AND d)
      else if i < 32 then (d AND b) OR (NOT d AND c)
      else if i < 48 then b XOR c XOR d
      else c XOR (b OR NOT d))"

definition md5_g :: "nat \<Rightarrow> nat" where
  "md5_g i =
     (if i < 16 then i
      else if i < 32 then (5 * i + 1) mod 16
      else if i < 48 then (3 * i + 5) mod 16
      else (7 * i) mod 16)"

definition rotl32 :: "nat \<Rightarrow> u32 \<Rightarrow> u32" where
  "rotl32 n w = push_bit n w OR drop_bit (32 - n) w"

definition md5_step :: "u32 list \<Rightarrow> u32 \<times> u32 \<times> u32 \<times> u32 \<Rightarrow> nat \<Rightarrow> u32 \<times> u32 \<times> u32 \<times> u32" where
  "md5_step m st i =
     (case st of (a, b, c, d) \<Rightarrow>
        (d, b + rotl32 (md5_s ! i) (md5_F i b c d + a + md5_K ! i + m ! md5_g i), b, c))"

fun le_word :: "8 word list \<Rightarrow> u32" where
  "le_word [] = 0"
| "le_word (x # xs) = ucast x OR push_bit 8 (le_word xs)"

fun chunks :: "nat \<Rightarrow> 'a list \<Rightarrow> 'a list list" where
  "chunks n [] = []"
| "chunks n (x # xs) = (if n = 0 then [] else take n (x # xs) # chunks n (drop n (x # xs)))"

definition md5_block :: "u32 \<times> u32 \<times> u32 \<times> u32 \<Rightarrow> 8 word list \<Rightarrow> u32 \<times> u32 \<times> u32 \<times> u32" where
  "md5_block h blk =
     (case h of (a0, b0, c0, d0) \<Rightarrow>
        (case foldl (md5_step (map le_word (chunks 4 blk))) h [0..<64] of
           (a, b, c, d) \<Rightarrow> (a0 + a, b0 + b, c0 + c, d0 + d)))"

definition le_bytes32 :: "u32 \<Rightarrow> 8 word list" where
  "le_bytes32 w = map (\<lambda>k. ucast (drop_bit (8 * k) w)) [0..<4]"

definition le_bytes64 :: "64 word \<Rightarrow> 8 word list" where
  "le_bytes64 w = map (\<lambda>k. ucast (drop_bit (8 * k) w)) [0..<8]"

definition md5_pad :: "8 word list \<Rightarrow> 8 word list" where
  "md5_pad bs =
     bs @ [0x80] @ replicate ((119 - length bs mod 64) mod 64) 0 @ le_bytes64 (of_nat (8 * length bs))"

definition md5_digest :: "8 word list \<Rightarrow> 8 word list" where
  "md5_digest bs =
     (case foldl md5_block (0x67452301, 0xefcdab89, 0x98badcfe, 0x10325476) (chunks 64 (md5_pad bs)) of
        (a, b, c, d) \<Rightarrow> concat (map le_bytes32 [a, b, c, d]))"

definition md5_hexdigest :: "8 word list \<Rightarrow> string" where
  "md5_hexdigest bs = concat (map hex_byte (md5_digest bs))"

section \<open>Exceptions\<close>

type_synonym path = "string list"

datatype pyexn =
    AttributeError string
  | RuntimeError string
  | FileExistsError path
  | NotADirectoryError path
  | IsADirectoryError path
  | FileNotFoundError path
  | JSONDecodeError path
  | OtherError string string

text \<open>A raise is \<open>Inl\<close>; \<open>bind\<close> sequences two steps, stopping at the first raise.\<close>

definition bind :: "pyexn + 'a \<Rightarrow> ('a \<Rightarrow> pyexn + 'b) \<Rightarrow> pyexn + 'b" where
  "bind m f = (case m of Inl e \<Rightarrow> Inl e | Inr x \<Rightarrow> f x)"

section \<open>The cache directory tree\<close>

text \<open>
  A path is the list of its components below a base directory that always exists (the
  root or the working directory). The file system maps the paths that exist to what is
  there: a directory, or a regular file that holds either a JSON document, which
  \<^verbatim>\<open>json.load\<close> parses to the value given, or text that \<^verbatim>\<open>json.load\<close> rejects.
  Permissions and a full disk are not modelled.
\<close>

datatype filedata = Garbled | Document json

datatype node = Dir | File filedata

type_synonym filesystem = "path \<rightharpoonup> node"

definition node_at :: "filesystem \<Rightarrow> path \<Rightarrow> node option" where
  "node_at fs p = (if p = [] then Some Dir else fs p)"

text \<open>
  \<^verbatim>\<open>Path.__truediv__\<close> with a segment that holds no separator: an empty segment adds
  nothing. The segments joined in this program are class and method names.
\<close>

definition joinpath :: "path \<Rightarrow> string \<Rightarrow> path" where
  "joinpath p s = (if s = [] then p else p @ [s])"

definition parent :: "path \<Rightarrow> path" where
  "parent p = butlast p"

text \<open>
  \<^verbatim>\<open>Path.mkdir(parents=True, exist_ok=True)\<close>: every missing directory on the way is
  created; a regular file in the way raises.
\<close>

fun mkdir_from :: "path \<Rightarrow> path \<Rightarrow> filesystem \<Rightarrow> pyexn + filesystem" where
  "mkdir_from pre [] fs = Inr fs"
| "mkdir_from pre (c # cs) fs =
     (case fs (pre @ [c]) of
        None \<Rightarrow> mkdir_from (pre @ [c]) cs (fs(pre @ [c] \<mapsto> Dir))
      | Some Dir \<Rightarrow> mkdir_from (pre @ [c]) cs fs
      | Some (File d) \<Rightarrow>
          Inl (if cs = [] then FileExistsError (pre @ [c]) else NotADirectoryError (pre @ c # cs)))"

definition mkdir_parents :: "filesystem \<Rightarrow> path \<Rightarrow> pyexn + filesystem" where
  "mkdir_parents fs p = mkdir_from [] p fs"

text \<open>The directories \<^verbatim>\<open>mkdir\<close> visits on the way to a path, nearest the base first.\<close>

fun way :: "path \<Rightarrow> path \<Rightarrow> path list" where
  "way pre [] = []"
| "way pre (c # cs) = (pre @ [c]) # way (pre @ [c]) cs"

definition path_exists :: "filesystem \<Rightarrow> path \<Rightarrow> bool" where
  "path_exists fs p = (node_at fs p \<noteq> None)"

text \<open>\<^verbatim>\<open>open(p, "r")\<close> followed by \<^verbatim>\<open>json.load\<close>.\<close>

definition read_json :: "filesystem \<Rightarrow> path \<Rightarrow> pyexn + json" where
  "read_json fs p =
     (case node_at fs p of
        None \<Rightarrow> Inl (FileNotFoundError p)
      | Some Dir \<Rightarrow> Inl (IsADirectoryError p)
      | Some (File Garbled) \<Rightarrow> Inl (JSONDecodeError p)
      | Some (File (Document j)) \<Rightarrow> Inr j)"

text \<open>\<^verbatim>\<open>open(p, "w")\<close> followed by \<^verbatim>\<open>json.dump\<close>: an existing file is overwritten.\<close>

definition write_json :: "filesystem \<Rightarrow> path \<Rightarrow> json \<Rightarrow> pyexn + filesystem" where
  "write_json fs p j =
     (case node_at fs p of
        Some Dir \<Rightarrow> Inl (IsADirectoryError p)
      | _ \<Rightarrow>
          (case node_at fs (parent p) of
             Some Dir \<Rightarrow> Inr (fs(p \<mapsto> File (Document j)))
           | Some (File d) \<Rightarrow> Inl (NotADirectoryError p)
           | None \<Rightarrow> Inl (FileNotFoundError p)))"

text \<open>The regular file at a path, if there is one.\<close>

definition file_at :: "filesystem \<Rightarrow> path \<Rightarrow> filedata option" where
  "file_at fs p = (case fs p of Some (File d) \<Rightarrow> Some d | _ \<Rightarrow> None)"

text \<open>In a directory tree, whatever exists lies in a directory.\<close>

definition tree_shaped :: "filesystem \<Rightarrow> bool" where
  "tree_shaped fs = (\<forall>p. fs p \<noteq> None \<longrightarrow> node_at fs (parent p) = Some Dir)"

text \<open>No regular file stands where a directory on the way to \<open>p\<close> is needed.\<close>

definition clear_way :: "filesystem \<Rightarrow> path \<Rightarrow> bool" where
  "clear_way fs p = list_all (\<lambda>q. file_at fs q = None) (way [] p)"

section \<open>The replay provider\<close>

datatype ReplayMode = CACHE_ONLY | CACHE_WITH_FALLBACK

text \<open>
  Of the protocol class the proxy uses \<^verbatim>\<open>__name__\<close> and the names of the members that carry
  \<^verbatim>\<open>__webmethod__\<close>.
\<close>

record protocol =
  proto_name :: string
  webmethods :: "string list"

text \<open>
  The real provider: its class name, its truth value (\<^verbatim>\<open>if self.real_provider\<close>), the
  attributes \<^verbatim>\<open>getattr\<close> finds, and what a call does to the provider's own state \<open>'b\<close>.
\<close>

record 'b provider =
  type_name :: string
  truthy :: bool
  has_attr :: "string \<Rightarrow> bool"
  invoke_method :: "string \<Rightarrow> pyval list \<Rightarrow> (string \<times> pyval) list \<Rightarrow> 'b \<Rightarrow> (pyexn + pyval) \<times> 'b"

record 'b replay_provider =
  protocol :: protocol
  real_provider :: "'b provider option"
  mode :: ReplayMode
  cache_dir :: path
  routes :: "string list"

text \<open>
  The three response classes of \<^verbatim>\<open>llama_stack.apis.inference\<close> that
  \<^verbatim>\<open>_load_from_cache\<close> imports are not part of the sources at hand; their constructors,
  applied to the keyword arguments of a stored mapping, are parameters.
\<close>

record registry =
  ChatCompletionResponse :: "(string \<times> json) list \<Rightarrow> pyexn + pyobj"
  CompletionResponse :: "(string \<times> json) list \<Rightarrow> pyexn + pyobj"
  EmbeddingsResponse :: "(string \<times> json) list \<Rightarrow> pyexn + pyobj"

text \<open>
  What an invocation can change: the disk and the real provider's state. The log of the
  calls that reached the real provider is kept for the statements below.
\<close>

record 'b world =
  disk :: filesystem
  backend :: 'b
  backend_calls :: "(string \<times> pyval list \<times> (string \<times> pyval) list) list"

definition init ::
  "protocol \<Rightarrow> 'b provider option \<Rightarrow> ReplayMode \<Rightarrow> path \<Rightarrow> filesystem
     \<Rightarrow> pyexn + ('b replay_provider \<times> filesystem)" where
  "init proto rp m dir fs =
     bind (mkdir_parents fs dir) (\<lambda>fs'.
       Inr (\<lparr>protocol = proto, real_provider = rp, mode = m, cache_dir = dir,
             routes = webmethods proto\<rparr>, fs'))"

definition provider_type :: "'b replay_provider \<Rightarrow> string" where
  "provider_type self =
     (case real_provider self of
        Some rp \<Rightarrow> (if truthy rp then type_name rp else ''NoProvider'')
      | None \<Rightarrow> ''NoProvider'')"

definition api_name :: "'b replay_provider \<Rightarrow> string" where
  "api_name self = py_replace ''provider'' [] (py_lower (proto_name (protocol self)))"

definition param_str :: "pyval list \<Rightarrow> (string \<times> pyval) list \<Rightarrow> string" where
  "param_str args kwargs =
     py_str (PTuple args) @ ''_'' @ py_str (PDict (map (\<lambda>(k, v). (PStr k, v)) kwargs))"

definition generate_cache_key ::
  "'b replay_provider \<Rightarrow> string \<Rightarrow> pyval list \<Rightarrow> (string \<times> pyval) list \<Rightarrow> string" where
  "generate_cache_key self method_name args kwargs =
     (let param_hash = take 8 (md5_hexdigest (encode_utf8 (param_str args kwargs)))
      in api_name self @ ''_'' @ provider_type self @ ''_'' @ method_name @ ''_'' @ param_hash)"

definition namespace_dir :: "'b replay_provider \<Rightarrow> path" where
  "namespace_dir self = joinpath (joinpath (cache_dir self) (api_name self)) (provider_type self)"

definition cache_path :: "'b replay_provider \<Rightarrow> string \<Rightarrow> path" where
  "cache_path self cache_key = joinpath (namespace_dir self) (cache_key @ ''.json'')"

definition get_cache_path ::
  "'b replay_provider \<Rightarrow> string \<Rightarrow> filesystem \<Rightarrow> pyexn + (path \<times> filesystem)" where
  "get_cache_path self cache_key fs =
     bind (mkdir_parents fs (parent (cache_path self cache_key))) (\<lambda>fs'.
       Inr (cache_path self cache_key, fs'))"

text \<open>\<^verbatim>\<open>d.get(k, default)\<close> on a value read from a JSON file.\<close>

definition json_type_name :: "json \<Rightarrow> string" where
  "json_type_name j =
     (case j of JNull \<Rightarrow> ''NoneType'' | JBool b \<Rightarrow> ''bool'' | JInt i \<Rightarrow> ''int''
      | JStr s \<Rightarrow> ''str'' | JArr xs \<Rightarrow> ''list'' | JObj kvs \<Rightarrow> ''dict'')"

definition no_attribute :: "string \<Rightarrow> string \<Rightarrow> pyexn" where
  "no_attribute tn a =
     AttributeError
       ([CHR 0x27] @ tn @ [CHR 0x27] @ '' object has no attribute '' @ [CHR 0x27] @ a @ [CHR 0x27])"

definition py_get :: "json \<Rightarrow> string \<Rightarrow> json \<Rightarrow> pyexn + json" where
  "py_get j k dflt =
     (case j of
        JObj kvs \<Rightarrow> Inr (case map_of (rev kvs) k of Some v \<Rightarrow> v | None \<Rightarrow> dflt)
      | _ \<Rightarrow> Inl (no_attribute (json_type_name j) ''get''))"

text \<open>
  \<^verbatim>\<open>Cls(**response_data)\<close> inside the \<^verbatim>\<open>try\<close>: \<open>None\<close> when an exception was caught
  (the constructor raised, or the data is no mapping).
\<close>

definition construct :: "((string \<times> json) list \<Rightarrow> pyexn + pyobj) \<Rightarrow> json \<Rightarrow> pyval option" where
  "construct ctor response_data =
     (case response_data of
        JObj kvs \<Rightarrow> (case ctor kvs of Inr ob \<Rightarrow> Some (PObj ob) | Inl e \<Rightarrow> None)
      | _ \<Rightarrow> None)"

text \<open>The \<^verbatim>\<open>try\<close> block: \<open>None\<close> when no \<^verbatim>\<open>return\<close> inside it was reached.\<close>

definition reconstruct :: "registry \<Rightarrow> json \<Rightarrow> json \<Rightarrow> pyval option" where
  "reconstruct reg response_type response_data =
     (if response_type = JStr ''ChatCompletionResponse''
        then construct (ChatCompletionResponse reg) response_data
      else if response_type = JStr ''CompletionResponse''
        then construct (CompletionResponse reg) response_data
      else if response_type = JStr ''EmbeddingsResponse''
        then construct (EmbeddingsResponse reg) response_data
      else None)"

text \<open>
  \<^verbatim>\<open>_load_from_cache\<close>, in three parts: the choice between the reconstructed object and
  the raw data, the reading of the parsed record, and the function itself.
\<close>

definition decode_response :: "registry \<Rightarrow> json \<Rightarrow> json \<Rightarrow> pyval" where
  "decode_response reg response_type response_data =
     (if truthy_json response_type \<and> truthy_json response_data then
        (case reconstruct reg response_type response_data of
           Some v \<Rightarrow> v
         | None \<Rightarrow> of_json response_data)
      else of_json response_data)"

definition decode_record :: "registry \<Rightarrow> json \<Rightarrow> pyexn + pyval" where
  "decode_record reg cached_data =
     bind (py_get cached_data ''response'' JNull) (\<lambda>response_data.
     bind (py_get cached_data ''metadata'' (JObj [])) (\<lambda>metadata.
     bind (py_get metadata ''response_type'' JNull) (\<lambda>response_type.
       Inr (decode_response reg response_type response_data))))"

definition load_from_cache ::
  "registry \<Rightarrow> 'b replay_provider \<Rightarrow> string \<Rightarrow> filesystem \<Rightarrow> (pyexn + pyval) \<times> filesystem" where
  "load_from_cache reg self cache_key fs =
     (case get_cache_path self cache_key fs of
        Inl e \<Rightarrow> (Inl e, fs)
      | Inr (path, fs1) \<Rightarrow>
          (if path_exists fs1 path then bind (read_json fs1 path) (decode_record reg)
           else Inr PNone,
           fs1))"

definition py_type_name :: "pyval \<Rightarrow> string" where
  "py_type_name v =
     (case v of PNone \<Rightarrow> ''NoneType'' | PBool b \<Rightarrow> ''bool'' | PInt i \<Rightarrow> ''int''
      | PStr s \<Rightarrow> ''str'' | PList xs \<Rightarrow> ''list'' | PTuple xs \<Rightarrow> ''tuple''
      | PDict kvs \<Rightarrow> ''dict'' | PObj ob \<Rightarrow> cls_name ob)"

text \<open>The three-way choice of \<^verbatim>\<open>_save_to_cache\<close>; the built-in types have neither attribute.\<close>

definition serialize :: "pyval \<Rightarrow> json" where
  "serialize response =
     (case response of
        PObj ob \<Rightarrow>
          (case model_dump ob of
             Some m \<Rightarrow> JObj m
           | None \<Rightarrow> (case dict_v1 ob of Some m \<Rightarrow> JObj m | None \<Rightarrow> JStr (py_str response)))
      | _ \<Rightarrow> JStr (py_str response))"

definition cache_data :: "'b replay_provider \<Rightarrow> string \<Rightarrow> pyval \<Rightarrow> json" where
  "cache_data self cache_key response =
     JObj [(''cache_key'', JStr cache_key),
           (''response'', serialize response),
           (''metadata'',
            JObj [(''provider_type'', JStr (provider_type self)),
                  (''api_name'', JStr (proto_name (protocol self))),
                  (''response_type'', JStr (py_type_name response))])]"

definition save_to_cache ::
  "'b replay_provider \<Rightarrow> string \<Rightarrow> pyval \<Rightarrow> filesystem \<Rightarrow> (pyexn + unit) \<times> filesystem" where
  "save_to_cache self cache_key response fs =
     (case get_cache_path self cache_key fs of
        Inl e \<Rightarrow> (Inl e, fs)
      | Inr (path, fs1) \<Rightarrow>
          (case write_json fs1 path (cache_data self cache_key response) of
             Inl e \<Rightarrow> (Inl e, fs1)
           | Inr fs2 \<Rightarrow> (Inr (), fs2)))"

definition acall ::
  "registry \<Rightarrow> 'b replay_provider \<Rightarrow> string \<Rightarrow> pyval list \<Rightarrow> (string \<times> pyval) list \<Rightarrow> 'b world
     \<Rightarrow> (pyexn + pyval) \<times> 'b world" where
  "acall reg self method_name args kwargs w =
     (if method_name \<notin> set (routes self) then
        (Inl (AttributeError (''Unknown method: '' @ method_name)), w)
      else
        let cache_key = generate_cache_key self method_name args kwargs in
        (case load_from_cache reg self cache_key (disk w) of
           (Inl e, fs1) \<Rightarrow> (Inl e, w\<lparr>disk := fs1\<rparr>)
         | (Inr cached_response, fs1) \<Rightarrow>
             if cached_response \<noteq> PNone then (Inr cached_response, w\<lparr>disk := fs1\<rparr>)
             else if mode self = CACHE_ONLY then
               (Inl (RuntimeError (''Cache miss for '' @ cache_key @ '' and mode is CACHE_ONLY'')),
                w\<lparr>disk := fs1\<rparr>)
             else
               (case real_provider self of
                  None \<Rightarrow>
                    (Inl (RuntimeError
                            (''Cache miss for '' @ cache_key @ '' and no real provider available'')),
                     w\<lparr>disk := fs1\<rparr>)
                | Some rp \<Rightarrow>
                    if \<not> has_attr rp method_name then
                      (Inl (no_attribute (type_name rp) method_name), w\<lparr>disk := fs1\<rparr>)
                    else
                      (case invoke_method rp method_name args kwargs (backend w) of
                         (Inl e, b) \<Rightarrow>
                           (Inl e,
                            \<lparr>disk = fs1, backend = b,
                             backend_calls = backend_calls w @ [(method_name, args, kwargs)]\<rparr>)
                       | (Inr response, b) \<Rightarrow>
                           (case save_to_cache self cache_key response fs1 of
                              (Inl e, fs2) \<Rightarrow>
                                (Inl e,
                                 \<lparr>disk = fs2, backend = b,
                                  backend_calls = backend_calls w @ [(method_name, args, kwargs)]\<rparr>)
                            | (Inr u, fs2) \<Rightarrow>
                                (Inr response,
                                 \<lparr>disk = fs2, backend = b,
                                  backend_calls = backend_calls w @ [(method_name, args, kwargs)]\<rparr>))))))"

text \<open>A lookup that finds nothing: \<^verbatim>\<open>_load_from_cache\<close> returns \<^verbatim>\<open>None\<close>.\<close>

definition cache_miss :: "registry \<Rightarrow> 'b replay_provider \<Rightarrow> string \<Rightarrow> filesystem \<Rightarrow> bool" where
  "cache_miss reg self cache_key fs = (fst (load_from_cache reg self cache_key fs) = Inr PNone)"

text \<open>
  The structured-field view of a result, as \<^verbatim>\<open>_save_to_cache\<close> probes it:
  \<^verbatim>\<open>model_dump\<close> first, then \<^verbatim>\<open>dict\<close>.
\<close>

definition field_view :: "pyval \<Rightarrow> (string \<times> json) list option" where
  "field_view r =
     (case r of
        PObj ob \<Rightarrow> (case model_dump ob of Some m \<Rightarrow> Some m | None \<Rightarrow> dict_v1 ob)
      | _ \<Rightarrow> None)"

text \<open>The decode registry that the \<^verbatim>\<open>if\<close>/\<^verbatim>\<open>elif\<close> chain of \<^verbatim>\<open>_load_from_cache\<close> spells out.\<close>

definition registered_ctor ::
  "registry \<Rightarrow> string \<Rightarrow> ((string \<times> json) list \<Rightarrow> pyexn + pyobj) option" where
  "registered_ctor reg name =
     (if name = ''ChatCompletionResponse'' then Some (ChatCompletionResponse reg)
      else if name = ''CompletionResponse'' then Some (CompletionResponse reg)
      else if name = ''EmbeddingsResponse'' then Some (EmbeddingsResponse reg)
      else None)"

section \<open>The scenario of the unit tests\<close>

text \<open>
  \<^verbatim>\<open>MockInferenceProvider\<close> and \<^verbatim>\<open>MockRealProvider\<close> of
  \<^verbatim>\<open>tests/unit/test_replay_provider.py\<close>: one web method, \<^verbatim>\<open>completion\<close>, whose
  result is a plain dictionary that counts the calls.
\<close>

definition mock_protocol :: protocol where
  "mock_protocol = \<lparr>proto_name = ''MockInferenceProvider'', webmethods = [''completion'']\<rparr>"

definition mock_completion :: "pyval list \<Rightarrow> (string \<times> pyval) list \<Rightarrow> nat \<Rightarrow> (pyexn + pyval) \<times> nat" where
  "mock_completion args kwargs call_count =
     (let bound = map_of (zip [''model_id'', ''content''] args @ kwargs) in
      case (bound ''model_id'', bound ''content'') of
        (Some model_id, Some content) \<Rightarrow>
          (Inr (PDict [(PStr ''content'', PStr (''Response to: '' @ py_str content)),
                       (PStr ''model'', model_id),
                       (PStr ''call_number'', PInt (int (Suc call_count)))]),
           Suc call_count)
      | _ \<Rightarrow> (Inl (OtherError ''TypeError'' ''completion() missing required argument''), call_count))"

definition mock_real_provider :: "nat provider" where
  "mock_real_provider =
     \<lparr>type_name = ''MockRealProvider'', truthy = True,
      has_attr = (\<lambda>a. a \<in> set [''call_count'', ''initialize'', ''shutdown'', ''completion'']),
      invoke_method = (\<lambda>name. mock_completion)\<rparr>"

definition mock_replay :: "ReplayMode \<Rightarrow> nat replay_provider" where
  "mock_replay m =
     \<lparr>protocol = mock_protocol, real_provider = Some mock_real_provider, mode = m,
      cache_dir = [''tmp'', ''cache''], routes = [''completion'']\<rparr>"

definition hello_kwargs :: "(string \<times> pyval) list" where
  "hello_kwargs = [(''model_id'', PStr ''test-model''), (''content'', PStr ''Hello world'')]"

definition fresh_world :: "nat world" where
  "fresh_world = \<lparr>disk = Map.empty, backend = 0, backend_calls = []\<rparr>"

definition no_registry :: registry where
  "no_registry =
     \<lparr>ChatCompletionResponse = (\<lambda>kvs. Inl (OtherError ''ImportError'' ''llama_stack.apis.inference'')),
      CompletionResponse = (\<lambda>kvs. Inl (OtherError ''ImportError'' ''llama_stack.apis.inference'')),
      EmbeddingsResponse = (\<lambda>kvs. Inl (OtherError ''ImportError'' ''llama_stack.apis.inference''))\<rparr>"

text \<open>A provider whose every call raises, as a backend that cannot be reached does.\<close>

definition failing_provider :: "nat provider" where
  "failing_provider =
     \<lparr>type_name = ''MockRealProvider'', truthy = True,
      has_attr = (\<lambda>a. a \<in> set [''call_count'', ''initialize'', ''shutdown'', ''completion'']),
      invoke_method = (\<lambda>name args kwargs call_count.
         (Inl (OtherError ''ConnectionError'' ''backend unreachable''), Suc call_count))\<rparr>"

definition failing_replay :: "nat replay_provider" where
  "failing_replay =
     \<lparr>protocol = mock_protocol, real_provider = Some failing_provider, mode = CACHE_WITH_FALLBACK,
      cache_dir = [''tmp'', ''cache''], routes = [''completion'']\<rparr>"

text \<open>
  An instance of a pydantic model with the given fields, as the proxy observes it: the
  class name, the field mapping that \<^verbatim>\<open>model_dump\<close> and \<^verbatim>\<open>dict\<close> return, and the
  texts of \<^verbatim>\<open>repr\<close> and \<^verbatim>\<open>str\<close>, in which every field is printed as plain data.
\<close>

fun space_join :: "string list \<Rightarrow> string" where
  "space_join [] = []"
| "space_join [x] = x"
| "space_join (x # y # ys) = x @ '' '' @ space_join (y # ys)"

definition field_text :: "string \<times> json \<Rightarrow> string" where
  "field_text kv = fst kv @ ''='' @ py_repr (of_json (snd kv))"

definition pydantic_obj :: "string \<Rightarrow> (string \<times> json) list \<Rightarrow> pyobj" where
  "pydantic_obj cls kvs =
     \<lparr>cls_name = cls,
      repr_text = cls @ ''('' @ comma_join (map field_text kvs) @ '')'',
      str_text = space_join (map field_text kvs),
      model_dump = Some kvs,
      dict_v1 = Some kvs\<rparr>"

text \<open>
  Stand-ins for the constructors of the three registered classes, which are outside
  the sources at hand. Each follows pydantic's rule for a model whose optional fields
  default to \<^verbatim>\<open>None\<close>: a mapping that lacks a required field is rejected, a field that
  is not declared is ignored, and the instance has every declared field, in the order
  of declaration. The types of the values are not validated.
\<close>

definition model_ctor ::
  "string \<Rightarrow> string list \<Rightarrow> string list \<Rightarrow> (string \<times> json) list \<Rightarrow> pyexn + pyobj" where
  "model_ctor cls required declared kvs =
     (if list_ex (\<lambda>f. map_of kvs f = None) required
      then Inl (OtherError ''ValidationError'' (''validation error for '' @ cls))
      else Inr (pydantic_obj cls
             (map (\<lambda>f. (f, case map_of kvs f of Some v \<Rightarrow> v | None \<Rightarrow> JNull)) declared)))"

definition demo_registry :: registry where
  "demo_registry =
     \<lparr>ChatCompletionResponse =
        model_ctor ''ChatCompletionResponse'' [''completion_message'']
          [''metrics'', ''completion_message'', ''logprobs''],
      CompletionResponse =
        model_ctor ''CompletionResponse'' [''content'', ''stop_reason'']
          [''metrics'', ''content'', ''stop_reason'', ''logprobs''],
      EmbeddingsResponse = model_ctor ''EmbeddingsResponse'' [''embeddings''] [''embeddings'']\<rparr>"



text \<open>The directory and the record file of the call of the unit tests.\<close>

definition hello_dir :: path where
  "hello_dir = [''tmp'', ''cache'', ''mockinference'', ''MockRealProvider'']"

definition hello_file :: path where
  "hello_file = hello_dir @ [''mockinference_MockRealProvider_completion_4779be7f.json'']"

definition hello_tree :: filesystem where
  "hello_tree =
     [[''tmp''] \<mapsto> Dir, [''tmp'', ''cache''] \<mapsto> Dir,
      [''tmp'', ''cache'', ''mockinference''] \<mapsto> Dir, hello_dir \<mapsto> Dir]"

definition stored_record :: "json \<Rightarrow> string \<Rightarrow> json" where
  "stored_record payload tname =
     JObj [(''cache_key'', JStr ''mockinference_MockRealProvider_completion_4779be7f''),
           (''response'', payload),
           (''metadata'',
            JObj [(''provider_type'', JStr ''MockRealProvider''),
                  (''api_name'', JStr ''MockInferenceProvider''),
                  (''response_type'', JStr tname)])]"

definition world_with :: "json \<Rightarrow> nat world" where
  "world_with record =
     \<lparr>disk = hello_tree(hello_file \<mapsto> File (Document record)), backend = 0, backend_calls = []\<rparr>"

text \<open>
  A provider whose \<^verbatim>\<open>completion\<close> returns an instance of a pydantic model that the
  decode registry does not list.
\<close>

definition health_obj :: pyobj where
  "health_obj = pydantic_obj ''HealthInfo'' [(''status'', JStr ''OK'')]"

definition typed_provider :: "nat provider" where
  "typed_provider =
     \<lparr>type_name = ''MockRealProvider'', truthy = True,
      has_attr = (\<lambda>a. a \<in> set [''call_count'', ''initialize'', ''shutdown'', ''completion'']),
      invoke_method = (\<lambda>name args kwargs call_count. (Inr (PObj health_obj), Suc call_count))\<rparr>"

definition typed_replay :: "nat replay_provider" where
  "typed_replay =
     \<lparr>protocol = mock_protocol, real_provider = Some typed_provider, mode = CACHE_WITH_FALLBACK,
      cache_dir = [''tmp'', ''cache''], routes = [''completion'']\<rparr>"

text \<open>The disk right after \<^verbatim>\<open>__init__\<close> on an empty one: the cache root and nothing below it.\<close>

definition root_world :: "nat world" where
  "root_world =
     \<lparr>disk = [[''tmp''] \<mapsto> Dir, [''tmp'', ''cache''] \<mapsto> Dir], backend = 0, backend_calls = []\<rparr>"

text \<open>The call of the unit tests with its keyword arguments in the other order.\<close>

definition swapped_kwargs :: "(string \<times> pyval) list" where
  "swapped_kwargs = [(''content'', PStr ''Hello world''), (''model_id'', PStr ''test-model'')]"

text \<open>An object that is not a string and whose \<^verbatim>\<open>repr\<close> is that of the string \<^verbatim>\<open>Hello world\<close>.\<close>

definition quoted :: "string \<Rightarrow> string" where
  "quoted s = [CHR 0x27] @ s @ [CHR 0x27]"

definition greeting_obj :: pyobj where
  "greeting_obj =
     \<lparr>cls_name = ''Prompt'', repr_text = quoted ''Hello world'',
      str_text = ''Hello world'', model_dump = None, dict_v1 = None\<rparr>"

definition greeting_kwargs :: "(string \<times> pyval) list" where
  "greeting_kwargs = [(''model_id'', PStr ''test-model''), (''content'', PObj greeting_obj)]"

text \<open>Two calls of \<^verbatim>\<open>completion\<close> that differ in their content.\<close>

definition first_kwargs :: "(string \<times> pyval) list" where
  "first_kwargs = [(''model_id'', PStr ''test-model''), (''content'', PStr ''msg 6104'')]"

definition second_kwargs :: "(string \<times> pyval) list" where
  "second_kwargs = [(''model_id'', PStr ''test-model''), (''content'', PStr ''msg 90004'')]"

section \<open>Lemmas about the model\<close>

subsection \<open>Making directories\<close>

lemma way_snoc: "way pre (rest @ [x]) = way pre rest @ [pre @ rest @ [x]]"
  by (induction rest arbitrary: pre) auto

lemma way_length: "q \<in> set (way pre rest) \<Longrightarrow> length pre < length q \<and> length q \<le> length pre + length rest"
  by (induction rest arbitrary: pre) fastforce+

lemma mkdir_from_noop:
  "\<forall>q \<in> set (way pre rest). fs q = Some Dir \<Longrightarrow> mkdir_from pre rest fs = Inr fs"
  by (induction rest arbitrary: pre) auto

lemma mkdir_from_frame:
  "mkdir_from pre rest fs = Inr fs' \<Longrightarrow>
     fs' q = fs q \<or> (q \<in> set (way pre rest) \<and> fs q = None \<and> fs' q = Some Dir)"
proof (induction rest arbitrary: pre fs)
  case Nil
  then show ?case by simp
next
  case (Cons c cs)
  show ?case
  proof (cases "fs (pre @ [c])")
    case None
    with Cons.prems have "mkdir_from (pre @ [c]) cs (fs(pre @ [c] \<mapsto> Dir)) = Inr fs'" by simp
    from Cons.IH [OF this] show ?thesis using None by (auto split: if_splits)
  next
    case (Some n)
    with Cons.prems obtain "n = Dir" and "mkdir_from (pre @ [c]) cs fs = Inr fs'"
      by (cases n) auto
    from Cons.IH [OF this(2)] show ?thesis by auto
  qed
qed

lemma mkdir_from_dirs:
  "mkdir_from pre rest fs = Inr fs' \<Longrightarrow> \<forall>q \<in> set (way pre rest). fs' q = Some Dir"
proof (induction rest arbitrary: pre fs)
  case Nil
  then show ?case by simp
next
  case (Cons c cs)
  show ?case
  proof (cases "fs (pre @ [c])")
    case None
    with Cons.prems have step: "mkdir_from (pre @ [c]) cs (fs(pre @ [c] \<mapsto> Dir)) = Inr fs'" by simp
    have "fs' (pre @ [c]) = Some Dir"
      using mkdir_from_frame [OF step, of "pre @ [c]"] by auto
    with Cons.IH [OF step] show ?thesis by simp
  next
    case (Some n)
    with Cons.prems obtain n: "n = Dir" and step: "mkdir_from (pre @ [c]) cs fs = Inr fs'"
      by (cases n) auto
    have "fs' (pre @ [c]) = Some Dir"
      using mkdir_from_frame [OF step, of "pre @ [c]"] Some n by auto
    with Cons.IH [OF step] show ?thesis by simp
  qed
qed

lemma mkdir_from_clear:
  "list_all (\<lambda>q. file_at fs q = None) (way pre rest) \<Longrightarrow> \<exists>fs'. mkdir_from pre rest fs = Inr fs'"
proof (induction rest arbitrary: pre fs)
  case Nil
  then show ?case by simp
next
  case (Cons c cs)
  show ?case
  proof (cases "fs (pre @ [c])")
    case None
    have "list_all (\<lambda>q. file_at (fs(pre @ [c] \<mapsto> Dir)) q = None) (way (pre @ [c]) cs)"
      using Cons.prems by (auto simp: list_all_iff file_at_def)
    from Cons.IH [OF this] obtain fs' where
      "mkdir_from (pre @ [c]) cs (fs(pre @ [c] \<mapsto> Dir)) = Inr fs'" by blast
    then show ?thesis using None by simp
  next
    case (Some n)
    with Cons.prems have "n = Dir" by (cases n) (auto simp: file_at_def)
    moreover have "list_all (\<lambda>q. file_at fs q = None) (way (pre @ [c]) cs)"
      using Cons.prems by simp
    ultimately show ?thesis using Cons.IH Some by simp
  qed
qed

lemma way_last: "p \<noteq> [] \<Longrightarrow> pre @ p \<in> set (way pre p)"
  by (cases p rule: rev_cases) (auto simp: way_snoc)

lemma mkdir_parents_frame:
  "mkdir_parents fs p = Inr fs' \<Longrightarrow>
     fs' q = fs q \<or> (q \<in> set (way [] p) \<and> fs q = None \<and> fs' q = Some Dir)"
  unfolding mkdir_parents_def by (rule mkdir_from_frame)

lemma mkdir_parents_file_at:
  assumes "mkdir_parents fs p = Inr fs'"
  shows "file_at fs' = file_at fs"
proof
  fix q
  show "file_at fs' q = file_at fs q"
    using mkdir_parents_frame [OF assms, of q] by (auto simp: file_at_def)
qed

lemma mkdir_parents_outside:
  "mkdir_parents fs p = Inr fs' \<Longrightarrow> q \<notin> set (way [] p) \<Longrightarrow> fs' q = fs q"
  using mkdir_parents_frame [of fs p fs' q] by auto

lemma mkdir_parents_noop:
  "\<forall>q \<in> set (way [] p). fs q = Some Dir \<Longrightarrow> mkdir_parents fs p = Inr fs"
  unfolding mkdir_parents_def by (rule mkdir_from_noop)

lemma mkdir_parents_dirs:
  "mkdir_parents fs p = Inr fs' \<Longrightarrow> \<forall>q \<in> set (way [] p). fs' q = Some Dir"
  unfolding mkdir_parents_def by (rule mkdir_from_dirs)

lemma mkdir_parents_target:
  "mkdir_parents fs p = Inr fs' \<Longrightarrow> node_at fs' p = Some Dir"
  using mkdir_parents_dirs [of fs p fs'] way_last [of p "[]"]
  by (cases "p = []") (auto simp: node_at_def)

lemma mkdir_parents_clear:
  "clear_way fs p \<Longrightarrow> \<exists>fs'. mkdir_parents fs p = Inr fs'"
  unfolding mkdir_parents_def clear_way_def by (rule mkdir_from_clear)

lemma mkdir_parents_again:
  assumes "mkdir_parents fs p = Inr fs'" and "q \<notin> set (way [] p)"
  shows "mkdir_parents (fs'(q \<mapsto> n)) p = Inr (fs'(q \<mapsto> n))"
  using mkdir_parents_dirs [OF assms(1)] assms(2) by (intro mkdir_parents_noop) auto

lemma mkdir_parents_idem:
  "mkdir_parents fs p = Inr fs' \<Longrightarrow> mkdir_parents fs' p = Inr fs'"
  using mkdir_parents_dirs [of fs p fs'] by (intro mkdir_parents_noop)

lemma tree_shaped_dirs:
  assumes "tree_shaped fs"
  shows "node_at fs p = Some Dir \<Longrightarrow> \<forall>q \<in> set (way [] p). fs q = Some Dir"
proof (induction p rule: rev_induct)
  case Nil
  then show ?case by simp
next
  case (snoc x xs)
  then have here: "fs (xs @ [x]) = Some Dir" by (simp add: node_at_def)
  with assms have "node_at fs xs = Some Dir"
    unfolding tree_shaped_def parent_def by (metis butlast_snoc option.distinct(1))
  with snoc.IH here show ?case by (simp add: way_snoc)
qed

lemma tree_shaped_parent_dirs:
  assumes "tree_shaped fs" and "fs (p @ [x]) \<noteq> None"
  shows "\<forall>q \<in> set (way [] p). fs q = Some Dir"
proof -
  from assms have "node_at fs p = Some Dir"
    unfolding tree_shaped_def parent_def by (metis butlast_snoc)
  then show ?thesis by (rule tree_shaped_dirs [OF assms(1)])
qed

subsection \<open>The path of a record\<close>

lemma cache_path_snoc: "cache_path self k = namespace_dir self @ [k @ ''.json'']"
  by (simp add: cache_path_def joinpath_def)

lemma parent_cache_path: "parent (cache_path self k) = namespace_dir self"
  by (simp add: cache_path_snoc parent_def)

lemma cache_path_off_way: "cache_path self k \<notin> set (way [] (namespace_dir self))"
  using way_length [of "cache_path self k" "[]" "namespace_dir self"]
  by (auto simp: cache_path_snoc)

lemma cache_path_inj: "cache_path self k = cache_path self k' \<longleftrightarrow> k = k'"
  by (simp add: cache_path_snoc)

lemma cache_path_nonempty: "cache_path self k \<noteq> []"
  by (simp add: cache_path_snoc)

lemma clear_way_empty: "clear_way Map.empty p"
  by (simp add: clear_way_def file_at_def list_all_iff)

lemma clear_way_written:
  assumes "clear_way fs (namespace_dir self)" and "mkdir_parents fs (namespace_dir self) = Inr fs1"
  shows "clear_way (fs1(cache_path self k \<mapsto> n)) (namespace_dir self)"
proof -
  have "q \<in> set (way [] (namespace_dir self)) \<Longrightarrow> file_at (fs1(cache_path self k \<mapsto> n)) q = None" for q
    using mkdir_parents_dirs [OF assms(2)] cache_path_off_way [of self k]
    by (auto simp: file_at_def)
  then show ?thesis by (simp add: clear_way_def list_all_iff)
qed

subsection \<open>Loading and saving a record\<close>

lemma load_from_cache_Inl:
  "mkdir_parents fs (namespace_dir self) = Inl e \<Longrightarrow> load_from_cache reg self k fs = (Inl e, fs)"
  by (simp add: load_from_cache_def get_cache_path_def parent_cache_path bind_def)

lemma load_from_cache_Inr:
  assumes "mkdir_parents fs (namespace_dir self) = Inr fs1"
  shows "load_from_cache reg self k fs =
           (case fs (cache_path self k) of
              None \<Rightarrow> Inr PNone
            | Some Dir \<Rightarrow> Inl (IsADirectoryError (cache_path self k))
            | Some (File Garbled) \<Rightarrow> Inl (JSONDecodeError (cache_path self k))
            | Some (File (Document j)) \<Rightarrow> decode_record reg j,
            fs1)"
proof -
  have same: "fs1 (cache_path self k) = fs (cache_path self k)"
    by (rule mkdir_parents_outside [OF assms cache_path_off_way])
  show ?thesis
    using assms same
    by (simp add: load_from_cache_def get_cache_path_def parent_cache_path bind_def
        path_exists_def read_json_def node_at_def cache_path_nonempty
        split: option.splits node.splits filedata.splits)
qed

lemma load_from_cache_file_at:
  "file_at (snd (load_from_cache reg self k fs)) = file_at fs"
proof (cases "mkdir_parents fs (namespace_dir self)")
  case (Inl e)
  then show ?thesis by (simp add: load_from_cache_Inl)
next
  case (Inr fs1)
  then show ?thesis by (simp add: load_from_cache_Inr mkdir_parents_file_at)
qed

lemma save_to_cache_Inl:
  "mkdir_parents fs (namespace_dir self) = Inl e \<Longrightarrow> save_to_cache self k r fs = (Inl e, fs)"
  by (simp add: save_to_cache_def get_cache_path_def parent_cache_path bind_def)

lemma save_to_cache_Inr:
  assumes "mkdir_parents fs (namespace_dir self) = Inr fs1"
  shows "save_to_cache self k r fs =
           (if fs (cache_path self k) = Some Dir then (Inl (IsADirectoryError (cache_path self k)), fs1)
            else (Inr (), fs1(cache_path self k \<mapsto> File (Document (cache_data self k r)))))"
proof -
  have same: "fs1 (cache_path self k) = fs (cache_path self k)"
    by (rule mkdir_parents_outside [OF assms cache_path_off_way])
  have dir: "node_at fs1 (namespace_dir self) = Some Dir"
    by (rule mkdir_parents_target [OF assms])
  show ?thesis
    using assms same dir
    by (simp add: save_to_cache_def get_cache_path_def parent_cache_path bind_def
        write_json_def node_at_def cache_path_nonempty
        split: option.splits node.splits)
qed

lemma decode_own_record:
  "decode_record reg (cache_data self k r) =
     Inr (decode_response reg (JStr (py_type_name r)) (serialize r))"
  by (simp add: decode_record_def cache_data_def py_get_def bind_def)

lemma of_json_None: "of_json j = PNone \<longleftrightarrow> j = JNull"
  by (cases j) auto

lemma reconstruct_obj: "reconstruct reg rt d = Some v \<Longrightarrow> \<exists>ob. v = PObj ob"
  by (auto simp: reconstruct_def construct_def split: if_splits json.splits sum.splits)

lemma decode_response_None: "decode_response reg rt d = PNone \<longleftrightarrow> d = JNull"
  by (auto simp: decode_response_def of_json_None split: option.splits dest: reconstruct_obj)

lemma serialize_not_null: "serialize r \<noteq> JNull"
  by (auto simp: serialize_def split: pyval.splits option.splits)

lemma load_absent:
  assumes "clear_way fs (namespace_dir self)" and "fs (cache_path self k) = None"
  shows "\<exists>fs1. mkdir_parents fs (namespace_dir self) = Inr fs1
               \<and> load_from_cache reg self k fs = (Inr PNone, fs1)"
proof -
  from mkdir_parents_clear [OF assms(1)] obtain fs1
    where mk: "mkdir_parents fs (namespace_dir self) = Inr fs1" by blast
  with assms(2) show ?thesis by (simp add: load_from_cache_Inr)
qed

lemma cache_miss_absent:
  "clear_way fs (namespace_dir self) \<Longrightarrow> fs (cache_path self k) = None \<Longrightarrow> cache_miss reg self k fs"
  using load_absent [of fs self k reg] by (auto simp: cache_miss_def)

lemma cache_miss_load:
  "cache_miss reg self k fs \<Longrightarrow>
     load_from_cache reg self k fs = (Inr PNone, snd (load_from_cache reg self k fs))"
  by (simp add: cache_miss_def prod_eq_iff)

lemma load_present:
  assumes "tree_shaped fs" and "fs (cache_path self k) = Some (File (Document j))"
  shows "load_from_cache reg self k fs = (decode_record reg j, fs)"
proof -
  have "fs (namespace_dir self @ [k @ ''.json'']) \<noteq> None"
    using assms(2) by (simp add: cache_path_snoc)
  from tree_shaped_parent_dirs [OF assms(1) this]
  have "mkdir_parents fs (namespace_dir self) = Inr fs" by (rule mkdir_parents_noop)
  from load_from_cache_Inr [OF this, of reg k] assms(2) show ?thesis by simp
qed

lemma save_present:
  assumes "tree_shaped fs" and "fs (cache_path self k) = Some (File d)"
  shows "save_to_cache self k r fs =
           (Inr (), fs(cache_path self k \<mapsto> File (Document (cache_data self k r))))"
proof -
  have "fs (namespace_dir self @ [k @ ''.json'']) \<noteq> None"
    using assms(2) by (simp add: cache_path_snoc)
  from tree_shaped_parent_dirs [OF assms(1) this]
  have "mkdir_parents fs (namespace_dir self) = Inr fs" by (rule mkdir_parents_noop)
  from save_to_cache_Inr [OF this, of k r] assms(2) show ?thesis by simp
qed

lemma save_absent:
  assumes "clear_way fs (namespace_dir self)" and "fs (cache_path self k) = None"
  shows "\<exists>fs1. mkdir_parents fs (namespace_dir self) = Inr fs1
               \<and> save_to_cache self k r fs
                   = (Inr (), fs1(cache_path self k \<mapsto> File (Document (cache_data self k r))))"
proof -
  from mkdir_parents_clear [OF assms(1)] obtain fs1
    where mk: "mkdir_parents fs (namespace_dir self) = Inr fs1" by blast
  with assms(2) show ?thesis by (simp add: save_to_cache_Inr)
qed

lemma load_written:
  assumes "mkdir_parents fs (namespace_dir self) = Inr fs1"
  shows "load_from_cache reg self k (fs1(cache_path self k \<mapsto> File (Document (cache_data self k r))))
           = (Inr (decode_response reg (JStr (py_type_name r)) (serialize r)),
              fs1(cache_path self k \<mapsto> File (Document (cache_data self k r))))"
  using load_from_cache_Inr [OF mkdir_parents_again [OF assms cache_path_off_way], of reg k]
  by (simp add: decode_own_record)

lemma reconstruct_registered:
  "reconstruct reg (JStr n) d = (case registered_ctor reg n of None \<Rightarrow> None | Some c \<Rightarrow> construct c d)"
  by (simp add: reconstruct_def registered_ctor_def)

lemma reconstruct_not_str: "\<forall>n. rt \<noteq> JStr n \<Longrightarrow> reconstruct reg rt d = None"
  by (auto simp: reconstruct_def)

lemma registered_ctor_name: "registered_ctor reg n = Some c \<Longrightarrow> n \<noteq> []"
  by (auto simp: registered_ctor_def split: if_splits)

lemma serialize_field_view: "field_view r = Some flds \<Longrightarrow> serialize r = JObj flds"
  by (auto simp: field_view_def serialize_def split: pyval.splits option.splits)

subsection \<open>The branches of an invocation\<close>

lemma acall_unknown:
  "m \<notin> set (routes self) \<Longrightarrow>
     acall reg self m args kw w = (Inl (AttributeError (''Unknown method: '' @ m)), w)"
  by (simp add: acall_def)

lemma acall_load_Inl:
  "m \<in> set (routes self) \<Longrightarrow>
   load_from_cache reg self (generate_cache_key self m args kw) (disk w) = (Inl e, fs1) \<Longrightarrow>
     acall reg self m args kw w = (Inl e, w\<lparr>disk := fs1\<rparr>)"
  by (simp add: acall_def Let_def)

lemma acall_hit:
  "m \<in> set (routes self) \<Longrightarrow>
   load_from_cache reg self (generate_cache_key self m args kw) (disk w) = (Inr v, fs1) \<Longrightarrow>
   v \<noteq> PNone \<Longrightarrow>
     acall reg self m args kw w = (Inr v, w\<lparr>disk := fs1\<rparr>)"
  by (simp add: acall_def Let_def)

lemma acall_miss_cache_only:
  "m \<in> set (routes self) \<Longrightarrow>
   load_from_cache reg self (generate_cache_key self m args kw) (disk w) = (Inr PNone, fs1) \<Longrightarrow>
   mode self = CACHE_ONLY \<Longrightarrow>
     acall reg self m args kw w =
       (Inl (RuntimeError (''Cache miss for '' @ generate_cache_key self m args kw
                           @ '' and mode is CACHE_ONLY'')),
        w\<lparr>disk := fs1\<rparr>)"
  by (simp add: acall_def Let_def)

lemma acall_miss_no_provider:
  "m \<in> set (routes self) \<Longrightarrow>
   load_from_cache reg self (generate_cache_key self m args kw) (disk w) = (Inr PNone, fs1) \<Longrightarrow>
   mode self = CACHE_WITH_FALLBACK \<Longrightarrow> real_provider self = None \<Longrightarrow>
     acall reg self m args kw w =
       (Inl (RuntimeError (''Cache miss for '' @ generate_cache_key self m args kw
                           @ '' and no real provider available'')),
        w\<lparr>disk := fs1\<rparr>)"
  by (simp add: acall_def Let_def)

lemma acall_miss_no_attr:
  "m \<in> set (routes self) \<Longrightarrow>
   load_from_cache reg self (generate_cache_key self m args kw) (disk w) = (Inr PNone, fs1) \<Longrightarrow>
   mode self = CACHE_WITH_FALLBACK \<Longrightarrow> real_provider self = Some rp \<Longrightarrow> \<not> has_attr rp m \<Longrightarrow>
     acall reg self m args kw w = (Inl (no_attribute (type_name rp) m), w\<lparr>disk := fs1\<rparr>)"
  by (simp add: acall_def Let_def)

lemma acall_miss_raise:
  "m \<in> set (routes self) \<Longrightarrow>
   load_from_cache reg self (generate_cache_key self m args kw) (disk w) = (Inr PNone, fs1) \<Longrightarrow>
   mode self = CACHE_WITH_FALLBACK \<Longrightarrow> real_provider self = Some rp \<Longrightarrow> has_attr rp m \<Longrightarrow>
   invoke_method rp m args kw (backend w) = (Inl e, b) \<Longrightarrow>
     acall reg self m args kw w =
       (Inl e, \<lparr>disk = fs1, backend = b, backend_calls = backend_calls w @ [(m, args, kw)]\<rparr>)"
  by (simp add: acall_def Let_def)

lemma acall_miss_return:
  "m \<in> set (routes self) \<Longrightarrow>
   load_from_cache reg self (generate_cache_key self m args kw) (disk w) = (Inr PNone, fs1) \<Longrightarrow>
   mode self = CACHE_WITH_FALLBACK \<Longrightarrow> real_provider self = Some rp \<Longrightarrow> has_attr rp m \<Longrightarrow>
   invoke_method rp m args kw (backend w) = (Inr r, b) \<Longrightarrow>
   save_to_cache self (generate_cache_key self m args kw) r fs1 = (u, fs2) \<Longrightarrow>
     acall reg self m args kw w =
       (case u of Inl e \<Rightarrow> Inl e | Inr x \<Rightarrow> Inr r,
        \<lparr>disk = fs2, backend = b, backend_calls = backend_calls w @ [(m, args, kw)]\<rparr>)"
  by (cases u) (simp_all add: acall_def Let_def)

lemma first_call:
  assumes "m \<in> set (routes self)"
    and "mode self = CACHE_WITH_FALLBACK"
    and "real_provider self = Some rp"
    and "has_attr rp m"
    and "clear_way (disk w) (namespace_dir self)"
    and "disk w (cache_path self (generate_cache_key self m args kw)) = None"
    and "invoke_method rp m args kw (backend w) = (Inr r, b)"
  shows "\<exists>fs1. mkdir_parents (disk w) (namespace_dir self) = Inr fs1
           \<and> acall reg self m args kw w =
               (Inr r,
                \<lparr>disk = fs1(cache_path self (generate_cache_key self m args kw)
                           \<mapsto> File (Document (cache_data self (generate_cache_key self m args kw) r))),
                 backend = b,
                 backend_calls = backend_calls w @ [(m, args, kw)]\<rparr>)"
proof -
  let ?k = "generate_cache_key self m args kw"
  from load_absent [OF assms(5,6), of reg] obtain fs1 where
    mk: "mkdir_parents (disk w) (namespace_dir self) = Inr fs1" and
    ld: "load_from_cache reg self ?k (disk w) = (Inr PNone, fs1)" by blast
  have "fs1 (cache_path self ?k) = None"
    using mkdir_parents_outside [OF mk cache_path_off_way] assms(6) by simp
  then have sv: "save_to_cache self ?k r fs1
      = (Inr (), fs1(cache_path self ?k \<mapsto> File (Document (cache_data self ?k r))))"
    using save_to_cache_Inr [OF mkdir_parents_idem [OF mk], of ?k r] by simp
  from acall_miss_return [OF assms(1) ld assms(2,3,4,7) sv] mk show ?thesis by simp
qed

lemma replay_call:
  assumes "m \<in> set (routes self)"
    and "mkdir_parents fs (namespace_dir self) = Inr fs1"
    and "disk w1 = fs1(cache_path self (generate_cache_key self m args kw)
                     \<mapsto> File (Document (cache_data self (generate_cache_key self m args kw) r)))"
  shows "acall reg self m args kw w1 =
           (Inr (decode_response reg (JStr (py_type_name r)) (serialize r)), w1)"
proof -
  have "decode_response reg (JStr (py_type_name r)) (serialize r) \<noteq> PNone"
    by (simp add: decode_response_None serialize_not_null)
  with acall_hit [OF assms(1), of reg args kw w1] load_written [OF assms(2), of reg _ r] assms(3)
  show ?thesis by simp
qed

lemma acall_shape:
  assumes "m \<in> set (routes self)"
    and "mkdir_parents (disk w) (namespace_dir self) = Inr fs1"
    and "acall reg self m args kw w = (res, w')"
  shows "(disk w' = fs1
            \<and> ((\<exists>e. res = Inl e)
                \<or> (backend_calls w' = backend_calls w
                    \<and> disk w (cache_path self (generate_cache_key self m args kw)) \<noteq> None)))
         \<or> (mode self = CACHE_WITH_FALLBACK
            \<and> (\<exists>r. res = Inr r
                   \<and> disk w' = fs1(cache_path self (generate_cache_key self m args kw)
                        \<mapsto> File (Document (cache_data self (generate_cache_key self m args kw) r))))
            \<and> backend_calls w' = backend_calls w @ [(m, args, kw)])"
proof -
  let ?k = "generate_cache_key self m args kw"
  let ?p = "cache_path self ?k"
  note ld = load_from_cache_Inr [OF assms(2), of reg ?k]
  have same: "fs1 ?p = disk w ?p"
    by (rule mkdir_parents_outside [OF assms(2) cache_path_off_way])
  note sv = save_to_cache_Inr [OF mkdir_parents_idem [OF assms(2)], of ?k]
  obtain x where x: "load_from_cache reg self ?k (disk w) = (x, fs1)"
    using ld by simp
  show ?thesis
  proof (cases x)
    case (Inl e)
    with acall_load_Inl [OF assms(1), of reg args kw w e fs1] x assms(3) show ?thesis by auto
  next
    case (Inr v)
    show ?thesis
    proof (cases "v = PNone")
      case False
      with Inr x ld have "disk w ?p \<noteq> None" by (auto split: option.splits)
      with acall_hit [OF assms(1), of reg args kw w v fs1] x Inr False assms(3)
      show ?thesis by auto
    next
      case True
      with Inr x have miss: "load_from_cache reg self ?k (disk w) = (Inr PNone, fs1)" by simp
      have nodir: "fs1 ?p \<noteq> Some Dir"
        using miss ld same by (auto split: option.splits node.splits)
      show ?thesis
      proof (cases "mode self")
        case CACHE_ONLY
        with acall_miss_cache_only [OF assms(1) miss] assms(3) show ?thesis by auto
      next
        case CACHE_WITH_FALLBACK
        show ?thesis
        proof (cases "real_provider self")
          case None
          with acall_miss_no_provider [OF assms(1) miss CACHE_WITH_FALLBACK] assms(3)
          show ?thesis by auto
        next
          case (Some rp)
          show ?thesis
          proof (cases "has_attr rp m")
            case False
            with acall_miss_no_attr [OF assms(1) miss CACHE_WITH_FALLBACK Some] assms(3)
            show ?thesis by auto
          next
            case True
            obtain y b where inv: "invoke_method rp m args kw (backend w) = (y, b)"
              by (cases "invoke_method rp m args kw (backend w)")
            show ?thesis
            proof (cases y)
              case (Inl e)
              with acall_miss_raise [OF assms(1) miss CACHE_WITH_FALLBACK Some True] inv assms(3)
              show ?thesis by auto
            next
              case (Inr r)
              have "save_to_cache self ?k r fs1
                      = (Inr (), fs1(?p \<mapsto> File (Document (cache_data self ?k r))))"
                using sv [of r] nodir by simp
              moreover from inv Inr have "invoke_method rp m args kw (backend w) = (Inr r, b)"
                by simp
              ultimately have "acall reg self m args kw w =
                  (Inr r, \<lparr>disk = fs1(?p \<mapsto> File (Document (cache_data self ?k r))), backend = b,
                          backend_calls = backend_calls w @ [(m, args, kw)]\<rparr>)"
                using acall_miss_return [OF assms(1) miss CACHE_WITH_FALLBACK Some True] by simp
              with assms(3) CACHE_WITH_FALLBACK show ?thesis by auto
            qed
          qed
        qed
      qed
    qed
  qed
qed

lemma acall_leaves_namespace:
  assumes "m \<in> set (routes self)"
    and "mkdir_parents (disk w) (namespace_dir self) = Inr fs1"
    and "acall reg self m args kw w = (res, w')"
  shows "\<forall>q \<in> set (way [] (namespace_dir self)). disk w' q = Some Dir"
  using acall_shape [OF assms] mkdir_parents_dirs [OF assms(2)]
    cache_path_off_way [of self "generate_cache_key self m args kw"]
  by auto

lemma acall_mkdir_fails:
  assumes "mkdir_parents (disk w) (namespace_dir self) = Inl e"
    and "acall reg self m args kw w = (res, w')"
  shows "disk w' = disk w \<and> (\<exists>e'. res = Inl e')"
proof (cases "m \<in> set (routes self)")
  case True
  from acall_load_Inl [OF True load_from_cache_Inl [OF assms(1)], of reg args kw] assms(2)
  show ?thesis by auto
next
  case False
  with assms(2) show ?thesis by (auto simp: acall_unknown)
qed

lemma init_Inr:
  "init proto rp md dir fs = Inr (self, fs') \<longleftrightarrow>
     mkdir_parents fs dir = Inr fs'
     \<and> self = \<lparr>protocol = proto, real_provider = rp, mode = md, cache_dir = dir,
               routes = webmethods proto\<rparr>"
  by (auto simp: init_def bind_def split: sum.splits)

subsection \<open>The rendering of the arguments\<close>

lemma tuple_rendering:
  "py_repr (PTuple xs) =
     (case map py_repr xs of [s] \<Rightarrow> ''('' @ s @ '',)'' | ss \<Rightarrow> ''('' @ comma_join ss @ '')'')"
  by (simp split: list.splits)

lemma kwargs_rendering:
  "py_repr (PDict (map (\<lambda>(k, v). (PStr k, v)) kw)) =
     ''{'' @ comma_join (map (\<lambda>(k, s). repr_str k @ '': '' @ s) (map (\<lambda>(k, v). (k, py_repr v)) kw)) @ ''}''"
  by (simp add: comp_def case_prod_beta)

subsection \<open>The scenario evaluated\<close>

text \<open>
  The digest function on the first two strings of the test suite of RFC 1321, and the
  rendering that \<^verbatim>\<open>_generate_cache_key\<close> hashes for the call of the unit tests.
\<close>

lemma md5_of_empty: "md5_hexdigest (encode_utf8 []) = ''d41d8cd98f00b204e9800998ecf8427e''"
  by code_simp

lemma md5_of_abc: "md5_hexdigest (encode_utf8 ''abc'') = ''900150983cd24fb0d6963f7d28e17f72''"
  by code_simp

lemma hello_rendering:
  "param_str [] hello_kwargs =
     ''()_{'' @ quoted ''model_id'' @ '': '' @ quoted ''test-model'' @ '', ''
       @ quoted ''content'' @ '': '' @ quoted ''Hello world'' @ ''}''"
  by code_simp

lemma hello_key:
  "generate_cache_key (mock_replay m) ''completion'' [] hello_kwargs
     = ''mockinference_MockRealProvider_completion_4779be7f''"
  by code_simp

lemma mock_namespace: "namespace_dir (mock_replay m) = hello_dir"
  by code_simp

lemma hello_path:
  "cache_path (mock_replay m) ''mockinference_MockRealProvider_completion_4779be7f'' = hello_file"
  by (simp add: cache_path_snoc mock_namespace hello_file_def)

lemma tree_shaped_hello: "tree_shaped (hello_tree(hello_file \<mapsto> n))"
  by (auto simp: tree_shaped_def hello_tree_def hello_file_def hello_dir_def parent_def node_at_def
      split: if_splits)

lemma health_record_decodes:
  "decode_record demo_registry (stored_record (JObj [(''status'', JStr ''OK'')]) ''HealthInfo'')
     = Inr (PDict [(PStr ''status'', PStr ''OK'')])"
  by (simp add: decode_record_def stored_record_def py_get_def bind_def decode_response_def
      reconstruct_def)

lemma mock_provider_type: "provider_type (mock_replay m) = ''MockRealProvider''"
  by (simp add: provider_type_def mock_replay_def mock_real_provider_def)

lemma mock_api_name:
  "py_replace ''provider'' [] (py_lower ''MockInferenceProvider'') = ''mockinference''"
  by code_simp

lemma swapped_key:
  "generate_cache_key (mock_replay m) ''completion'' [] swapped_kwargs
     = ''mockinference_MockRealProvider_completion_5d9c9a59''"
  by code_simp

lemma first_key:
  "generate_cache_key (mock_replay m) ''completion'' [] first_kwargs
     = ''mockinference_MockRealProvider_completion_55f609f6''"
  by code_simp

lemma second_key:
  "generate_cache_key (mock_replay m) ''completion'' [] second_kwargs
     = ''mockinference_MockRealProvider_completion_55f609f6''"
  by code_simp

lemma mock_completion_hello:
  "mock_completion [] hello_kwargs n =
     (Inr (PDict [(PStr ''content'', PStr ''Response to: Hello world''),
                  (PStr ''model'', PStr ''test-model''),
                  (PStr ''call_number'', PInt (int (Suc n)))]), Suc n)"
  by (simp add: mock_completion_def hello_kwargs_def py_str_def)

lemma mock_completion_swapped:
  "mock_completion [] swapped_kwargs n =
     (Inr (PDict [(PStr ''content'', PStr ''Response to: Hello world''),
                  (PStr ''model'', PStr ''test-model''),
                  (PStr ''call_number'', PInt (int (Suc n)))]), Suc n)"
  by (simp add: mock_completion_def swapped_kwargs_def py_str_def)

section \<open>The claims\<close>

subsection \<open>C1: a miss followed by a hit\<close>

text \<open>
  Claim C1, as the code has it. In \<^verbatim>\<open>CACHE_WITH_FALLBACK\<close> mode, with a real provider
  that has the operation and returns a result, the first invocation with nothing stored
  at the key's path calls the provider exactly once, creates exactly one record file
  and returns the provider's result. The next invocation with the same arguments
  changes neither the disk nor the provider nor the call log (so every later one does
  the same), and for a structured result it returns what the stored field mapping
  decodes to: the raw mapping when the class is not registered, and a value equal to
  the first result when the class is registered and its constructor rebuilds the
  instance from its non-empty dump.
\<close>

theorem miss_then_hit:
  assumes "method_name \<in> set (routes self)"
    and "mode self = CACHE_WITH_FALLBACK"
    and "real_provider self = Some rp"
    and "has_attr rp method_name"
    and "clear_way (disk w) (namespace_dir self)"
    and "disk w (cache_path self (generate_cache_key self method_name args kwargs)) = None"
    and "invoke_method rp method_name args kwargs (backend w) = (Inr r, b)"
    and "acall reg self method_name args kwargs w = (res1, w1)"
    and "acall reg self method_name args kwargs w1 = (res2, w2)"
  shows "res1 = Inr r
       \<and> backend_calls w1 = backend_calls w @ [(method_name, args, kwargs)]
       \<and> file_at (disk w1) =
           (file_at (disk w))(cache_path self (generate_cache_key self method_name args kwargs)
              \<mapsto> Document (cache_data self (generate_cache_key self method_name args kwargs) r))
       \<and> w2 = w1
       \<and> (\<forall>flds. field_view r = Some flds \<longrightarrow>
             res2 = Inr (decode_response reg (JStr (py_type_name r)) (JObj flds)))
       \<and> (\<forall>flds. field_view r = Some flds \<longrightarrow> registered_ctor reg (py_type_name r) = None \<longrightarrow>
             res2 = Inr (of_json (JObj flds)))
       \<and> (\<forall>flds ctor ob. r = PObj ob \<longrightarrow> field_view r = Some flds \<longrightarrow> flds \<noteq> [] \<longrightarrow>
             registered_ctor reg (cls_name ob) = Some ctor \<longrightarrow> ctor flds = Inr ob \<longrightarrow>
             res2 = res1)"
proof -
  let ?k = "generate_cache_key self method_name args kwargs"
  let ?p = "cache_path self ?k"
  from first_call [OF assms(1-7), of reg] assms(8) obtain fs1 where
    mk: "mkdir_parents (disk w) (namespace_dir self) = Inr fs1" and
    res1: "res1 = Inr r" and
    w1: "w1 = \<lparr>disk = fs1(?p \<mapsto> File (Document (cache_data self ?k r))), backend = b,
               backend_calls = backend_calls w @ [(method_name, args, kwargs)]\<rparr>"
    by auto
  have files: "file_at (disk w1) = (file_at (disk w))(?p \<mapsto> Document (cache_data self ?k r))"
    using mkdir_parents_file_at [OF mk] w1 by (auto simp: file_at_def fun_eq_iff)
  have d1: "disk w1 = fs1(?p \<mapsto> File (Document (cache_data self ?k r)))" using w1 by simp
  from replay_call [OF assms(1) mk d1, of reg] assms(9) have
    res2: "res2 = Inr (decode_response reg (JStr (py_type_name r)) (serialize r))" and
    w2: "w2 = w1" by auto
  have decoded: "\<forall>flds. field_view r = Some flds \<longrightarrow>
             res2 = Inr (decode_response reg (JStr (py_type_name r)) (JObj flds))"
    using res2 by (simp add: serialize_field_view)
  have raw: "\<forall>flds. field_view r = Some flds \<longrightarrow> registered_ctor reg (py_type_name r) = None \<longrightarrow>
             res2 = Inr (of_json (JObj flds))"
    using decoded by (simp add: decode_response_def reconstruct_registered)
  have same: "\<forall>flds ctor ob. r = PObj ob \<longrightarrow> field_view r = Some flds \<longrightarrow> flds \<noteq> [] \<longrightarrow>
             registered_ctor reg (cls_name ob) = Some ctor \<longrightarrow> ctor flds = Inr ob \<longrightarrow>
             res2 = res1"
    using decoded res1
    by (auto simp: decode_response_def reconstruct_registered construct_def py_type_name_def
        dest: registered_ctor_name)
  from res1 w1 files w2 decoded raw same show ?thesis by simp
qed

theorem miss_then_hit_witness:
  "''completion'' \<in> set (routes typed_replay)
   \<and> mode typed_replay = CACHE_WITH_FALLBACK
   \<and> real_provider typed_replay = Some typed_provider
   \<and> has_attr typed_provider ''completion''
   \<and> clear_way (disk fresh_world) (namespace_dir typed_replay)
   \<and> disk fresh_world (cache_path typed_replay
        (generate_cache_key typed_replay ''completion'' [] hello_kwargs)) = None
   \<and> invoke_method typed_provider ''completion'' [] hello_kwargs (backend fresh_world)
        = (Inr (PObj health_obj), 1)
   \<and> field_view (PObj health_obj) = Some [(''status'', JStr ''OK'')]
   \<and> registered_ctor demo_registry (py_type_name (PObj health_obj)) = None
   \<and> fst (acall demo_registry typed_replay ''completion'' [] hello_kwargs fresh_world)
        = Inr (PObj health_obj)
   \<and> backend_calls (snd (acall demo_registry typed_replay ''completion'' [] hello_kwargs fresh_world))
        = [(''completion'', [], hello_kwargs)]
   \<and> acall demo_registry typed_replay ''completion'' [] hello_kwargs
        (snd (acall demo_registry typed_replay ''completion'' [] hello_kwargs fresh_world))
        = (Inr (PDict [(PStr ''status'', PStr ''OK'')]),
           snd (acall demo_registry typed_replay ''completion'' [] hello_kwargs fresh_world))"
proof -
  let ?first = "acall demo_registry typed_replay ''completion'' [] hello_kwargs fresh_world"
  let ?second = "acall demo_registry typed_replay ''completion'' [] hello_kwargs (snd ?first)"
  have a: "''completion'' \<in> set (routes typed_replay)" by (simp add: typed_replay_def)
  have b: "mode typed_replay = CACHE_WITH_FALLBACK" by (simp add: typed_replay_def)
  have c: "real_provider typed_replay = Some typed_provider" by (simp add: typed_replay_def)
  have d: "has_attr typed_provider ''completion''" by (simp add: typed_provider_def)
  have e: "clear_way (disk fresh_world) (namespace_dir typed_replay)"
    by (simp add: fresh_world_def clear_way_empty)
  have f: "disk fresh_world (cache_path typed_replay
        (generate_cache_key typed_replay ''completion'' [] hello_kwargs)) = None"
    by (simp add: fresh_world_def)
  have g: "invoke_method typed_provider ''completion'' [] hello_kwargs (backend fresh_world)
        = (Inr (PObj health_obj), 1)"
    by (simp add: typed_provider_def fresh_world_def)
  have h: "field_view (PObj health_obj) = Some [(''status'', JStr ''OK'')]"
    by (simp add: field_view_def health_obj_def pydantic_obj_def)
  have i: "registered_ctor demo_registry (py_type_name (PObj health_obj)) = None"
    by (simp add: registered_ctor_def py_type_name_def health_obj_def pydantic_obj_def)
  have j: "?first = (fst ?first, snd ?first)" by simp
  have k: "?second = (fst ?second, snd ?second)" by simp
  note th = miss_then_hit [OF a b c d e f g j k]
  from th have r1: "fst ?first = Inr (PObj health_obj)" by simp
  from th have calls: "backend_calls (snd ?first) = [(''completion'', [], hello_kwargs)]"
    by (simp add: fresh_world_def)
  from th have same: "snd ?second = snd ?first" by simp
  from th h i have "fst ?second = Inr (of_json (JObj [(''status'', JStr ''OK'')]))" by blast
  then have r2: "fst ?second = Inr (PDict [(PStr ''status'', PStr ''OK'')])" by simp
  from r2 same have "?second = (Inr (PDict [(PStr ''status'', PStr ''OK'')]), snd ?first)"
    by (simp add: prod_eq_iff)
  with a b c d e f g h i r1 calls show ?thesis by blast
qed

text \<open>
  Claim C1 as stated fails where the result is a structured value of a class that the
  registry does not list: the first invocation returns the object, the second one the
  raw mapping of its fields.
\<close>

theorem miss_then_hit_counterexample:
  "fst (acall demo_registry typed_replay ''completion'' [] hello_kwargs fresh_world)
     = Inr (PObj health_obj)
   \<and> fst (acall demo_registry typed_replay ''completion'' [] hello_kwargs
        (snd (acall demo_registry typed_replay ''completion'' [] hello_kwargs fresh_world)))
     = Inr (PDict [(PStr ''status'', PStr ''OK'')])
   \<and> fst (acall demo_registry typed_replay ''completion'' [] hello_kwargs
        (snd (acall demo_registry typed_replay ''completion'' [] hello_kwargs fresh_world)))
     \<noteq> fst (acall demo_registry typed_replay ''completion'' [] hello_kwargs fresh_world)"
proof -
  let ?k = "generate_cache_key typed_replay ''completion'' [] hello_kwargs"
  let ?first = "acall demo_registry typed_replay ''completion'' [] hello_kwargs fresh_world"
  have a: "''completion'' \<in> set (routes typed_replay)" by (simp add: typed_replay_def)
  from first_call [of "''completion''" typed_replay typed_provider fresh_world "[]" hello_kwargs
      "PObj health_obj" 1 demo_registry]
  obtain fs1 where
    mk: "mkdir_parents (disk fresh_world) (namespace_dir typed_replay) = Inr fs1" and
    first: "?first = (Inr (PObj health_obj),
        \<lparr>disk = fs1(cache_path typed_replay ?k
                   \<mapsto> File (Document (cache_data typed_replay ?k (PObj health_obj)))),
         backend = 1, backend_calls = backend_calls fresh_world @ [(''completion'', [], hello_kwargs)]\<rparr>)"
    by (auto simp: typed_replay_def typed_provider_def fresh_world_def clear_way_empty)
  have d1: "disk (snd ?first) = fs1(cache_path typed_replay ?k
                   \<mapsto> File (Document (cache_data typed_replay ?k (PObj health_obj))))"
    using first by simp
  have "decode_response demo_registry (JStr (py_type_name (PObj health_obj))) (serialize (PObj health_obj))
          = PDict [(PStr ''status'', PStr ''OK'')]"
    by (simp add: decode_response_def reconstruct_def py_type_name_def serialize_def
        health_obj_def pydantic_obj_def)
  with replay_call [OF a mk d1, of demo_registry] first show ?thesis by simp
qed

text \<open>
  The call of \<^verbatim>\<open>test_cache_hit\<close>: the result of \<^verbatim>\<open>MockRealProvider\<close> is a plain
  dictionary, which has neither \<^verbatim>\<open>model_dump\<close> nor \<^verbatim>\<open>dict\<close>; the record stores its
  \<^verbatim>\<open>str\<close>, and the second invocation returns that text where the test expects an equal
  dictionary.
\<close>

lemma hello_response_text:
  "py_str (PDict [(PStr ''content'', PStr ''Response to: Hello world''),
                  (PStr ''model'', PStr ''test-model''),
                  (PStr ''call_number'', PInt 1)])
     = ''{'' @ quoted ''content'' @ '': '' @ quoted ''Response to: Hello world'' @ '', ''
         @ quoted ''model'' @ '': '' @ quoted ''test-model'' @ '', ''
         @ quoted ''call_number'' @ '': 1}''"
  by code_simp

lemma plain_result_replayed_as_text:
  "fst (acall no_registry (mock_replay CACHE_WITH_FALLBACK) ''completion'' [] hello_kwargs fresh_world)
     = Inr (PDict [(PStr ''content'', PStr ''Response to: Hello world''),
                   (PStr ''model'', PStr ''test-model''),
                   (PStr ''call_number'', PInt 1)])
   \<and> fst (acall no_registry (mock_replay CACHE_WITH_FALLBACK) ''completion'' [] hello_kwargs
        (snd (acall no_registry (mock_replay CACHE_WITH_FALLBACK) ''completion'' [] hello_kwargs
           fresh_world)))
     = Inr (PStr (''{'' @ quoted ''content'' @ '': '' @ quoted ''Response to: Hello world'' @ '', ''
         @ quoted ''model'' @ '': '' @ quoted ''test-model'' @ '', ''
         @ quoted ''call_number'' @ '': 1}''))"
proof -
  let ?self = "mock_replay CACHE_WITH_FALLBACK"
  let ?k = "generate_cache_key ?self ''completion'' [] hello_kwargs"
  let ?r = "PDict [(PStr ''content'', PStr ''Response to: Hello world''),
                   (PStr ''model'', PStr ''test-model''),
                   (PStr ''call_number'', PInt 1)]"
  let ?first = "acall no_registry ?self ''completion'' [] hello_kwargs fresh_world"
  have a: "''completion'' \<in> set (routes ?self)" by (simp add: mock_replay_def)
  have inv: "invoke_method mock_real_provider ''completion'' [] hello_kwargs (backend fresh_world)
               = (Inr ?r, 1)"
    by (simp add: mock_real_provider_def mock_completion_hello fresh_world_def)
  from first_call [of "''completion''" ?self mock_real_provider fresh_world "[]" hello_kwargs
      ?r 1 no_registry] inv
  obtain fs1 where
    mk: "mkdir_parents (disk fresh_world) (namespace_dir ?self) = Inr fs1" and
    first: "?first = (Inr ?r,
        \<lparr>disk = fs1(cache_path ?self ?k \<mapsto> File (Document (cache_data ?self ?k ?r))),
         backend = 1,
         backend_calls = backend_calls fresh_world @ [(''completion'', [], hello_kwargs)]\<rparr>)"
    by (auto simp: mock_replay_def mock_real_provider_def fresh_world_def clear_way_empty)
  have d1: "disk (snd ?first) = fs1(cache_path ?self ?k \<mapsto> File (Document (cache_data ?self ?k ?r)))"
    using first by simp
  have "serialize ?r = JStr (py_str ?r)" by (simp add: serialize_def)
  moreover have "py_str ?r \<noteq> []" by (simp add: hello_response_text)
  ultimately have "decode_response no_registry (JStr (py_type_name ?r)) (serialize ?r)
      = PStr (py_str ?r)"
    by (simp add: decode_response_def reconstruct_def py_type_name_def)
  with replay_call [OF a mk d1, of no_registry] first show ?thesis
    by (simp add: hello_response_text)
qed

subsection \<open>C2: a miss in cache-only mode\<close>

text \<open>
  Claim C2. Under \<^verbatim>\<open>CACHE_ONLY\<close>, an invocation of an operation of the protocol for which
  nothing is stored at the key's path raises the cache-miss error, a \<^verbatim>\<open>RuntimeError\<close>
  whose message holds the computed key and the mode, and the real provider is not
  called: its call log and its state are as before. The cache directory is assumed
  usable, that is, no regular file stands where a namespace directory is needed.
\<close>

theorem cache_only_miss_raises:
  assumes "method_name \<in> set (routes self)"
    and "mode self = CACHE_ONLY"
    and "clear_way (disk w) (namespace_dir self)"
    and "disk w (cache_path self (generate_cache_key self method_name args kwargs)) = None"
  shows "fst (acall reg self method_name args kwargs w) =
           Inl (RuntimeError (''Cache miss for '' @ generate_cache_key self method_name args kwargs
                              @ '' and mode is CACHE_ONLY''))
       \<and> backend_calls (snd (acall reg self method_name args kwargs w)) = backend_calls w
       \<and> backend (snd (acall reg self method_name args kwargs w)) = backend w"
proof -
  from load_absent [OF assms(3,4)] obtain fs1 where
    "load_from_cache reg self (generate_cache_key self method_name args kwargs) (disk w)
       = (Inr PNone, fs1)" by blast
  from acall_miss_cache_only [OF assms(1) this assms(2)] show ?thesis by simp
qed

theorem cache_only_miss_raises_witness:
  "''completion'' \<in> set (routes (mock_replay CACHE_ONLY))
   \<and> mode (mock_replay CACHE_ONLY) = CACHE_ONLY
   \<and> clear_way (disk fresh_world) (namespace_dir (mock_replay CACHE_ONLY))
   \<and> disk fresh_world (cache_path (mock_replay CACHE_ONLY)
        (generate_cache_key (mock_replay CACHE_ONLY) ''completion'' [] hello_kwargs)) = None
   \<and> fst (acall no_registry (mock_replay CACHE_ONLY) ''completion'' [] hello_kwargs fresh_world) =
       Inl (RuntimeError
         ''Cache miss for mockinference_MockRealProvider_completion_4779be7f and mode is CACHE_ONLY'')
   \<and> backend_calls (snd (acall no_registry (mock_replay CACHE_ONLY) ''completion'' [] hello_kwargs
        fresh_world)) = []"
proof -
  have a: "''completion'' \<in> set (routes (mock_replay CACHE_ONLY))" by (simp add: mock_replay_def)
  have b: "mode (mock_replay CACHE_ONLY) = CACHE_ONLY" by (simp add: mock_replay_def)
  have c: "clear_way (disk fresh_world) (namespace_dir (mock_replay CACHE_ONLY))"
    by (simp add: fresh_world_def clear_way_empty)
  have d: "disk fresh_world (cache_path (mock_replay CACHE_ONLY)
        (generate_cache_key (mock_replay CACHE_ONLY) ''completion'' [] hello_kwargs)) = None"
    by (simp add: fresh_world_def)
  from cache_only_miss_raises [OF a b c d, of no_registry] a b c d
  show ?thesis by (simp add: hello_key fresh_world_def)
qed

subsection \<open>C3: what the cache key depends on\<close>

text \<open>
  Claim C3, as the code has it. The key is a function of the provider, the operation
  name and the textual rendering of the arguments: two calls whose positional arguments
  have the same \<^verbatim>\<open>repr\<close>, one by one, and whose keyword arguments have the same names
  and the same \<^verbatim>\<open>repr\<close> in the same order get the same key. The order of the keyword
  arguments is part of the rendering and is not canonicalised.
\<close>

theorem key_depends_on_rendering:
  assumes "map py_repr args = map py_repr args'"
    and "map (\<lambda>(k, v). (k, py_repr v)) kwargs = map (\<lambda>(k, v). (k, py_repr v)) kwargs'"
  shows "generate_cache_key self method_name args kwargs
           = generate_cache_key self method_name args' kwargs'"
proof -
  have "py_repr (PTuple args) = py_repr (PTuple args')"
    using assms(1) by (simp only: tuple_rendering)
  moreover have "py_repr (PDict (map (\<lambda>(k, v). (PStr k, v)) kwargs))
      = py_repr (PDict (map (\<lambda>(k, v). (PStr k, v)) kwargs'))"
    using assms(2) by (simp only: kwargs_rendering)
  ultimately have "param_str args kwargs = param_str args' kwargs'"
    by (simp add: param_str_def py_str_def)
  then show ?thesis by (simp add: generate_cache_key_def)
qed

theorem key_depends_on_rendering_witness:
  "map py_repr [] = map py_repr []
   \<and> map (\<lambda>(k, v). (k, py_repr v)) greeting_kwargs = map (\<lambda>(k, v). (k, py_repr v)) hello_kwargs
   \<and> greeting_kwargs \<noteq> hello_kwargs
   \<and> generate_cache_key (mock_replay CACHE_ONLY) ''completion'' [] greeting_kwargs
       = ''mockinference_MockRealProvider_completion_4779be7f''"
proof -
  have a: "map py_repr [] = map py_repr []" by simp
  have b: "map (\<lambda>(k, v). (k, py_repr v)) greeting_kwargs
         = map (\<lambda>(k, v). (k, py_repr v)) hello_kwargs"
    by code_simp
  have c: "greeting_kwargs \<noteq> hello_kwargs"
    by (simp add: greeting_kwargs_def hello_kwargs_def)
  from key_depends_on_rendering [OF a b, of "mock_replay CACHE_ONLY" "''completion''"] a b c
  show ?thesis by (simp add: hello_key)
qed

text \<open>
  Claim C3 as stated fails for the call of the unit tests: the same keyword arguments,
  given in the other order, are the same mapping and get another key.
\<close>

theorem key_depends_on_rendering_counterexample:
  "map_of swapped_kwargs = map_of hello_kwargs
   \<and> generate_cache_key (mock_replay CACHE_WITH_FALLBACK) ''completion'' [] hello_kwargs
       = ''mockinference_MockRealProvider_completion_4779be7f''
   \<and> generate_cache_key (mock_replay CACHE_WITH_FALLBACK) ''completion'' [] swapped_kwargs
       = ''mockinference_MockRealProvider_completion_5d9c9a59''
   \<and> generate_cache_key (mock_replay CACHE_WITH_FALLBACK) ''completion'' [] swapped_kwargs
       \<noteq> generate_cache_key (mock_replay CACHE_WITH_FALLBACK) ''completion'' [] hello_kwargs"
proof -
  have "map_of swapped_kwargs = map_of hello_kwargs"
    by (auto simp: fun_eq_iff swapped_kwargs_def hello_kwargs_def)
  then show ?thesis by (simp add: hello_key swapped_key)
qed

subsection \<open>C4: what an invocation changes on disk\<close>

text \<open>
  Claim C4, as the code has it. Whatever an invocation does, each path of the disk
  either is as before, or is a namespace directory (\<^verbatim>\<open>root/api_name/provider_type\<close> or
  an ancestor) that was missing and now exists, or is the record file of the key,
  written in fallback mode after the provider returned. In \<^verbatim>\<open>CACHE_ONLY\<close> mode no
  regular file changes, and an invocation that returns a value without reaching the
  provider, a cache hit, leaves the disk as it was. Directories are not made on the
  first write only: constructing the provider makes the cache root, and every lookup
  makes the namespace directories, also the lookup of a \<^verbatim>\<open>CACHE_ONLY\<close> miss.
\<close>

theorem invoke_disk_frame:
  assumes "acall reg self method_name args kwargs w = (res, w')"
  shows "(\<forall>q. disk w' q = disk w q
            \<or> (q \<in> set (way [] (namespace_dir self)) \<and> disk w q = None \<and> disk w' q = Some Dir)
            \<or> (q = cache_path self (generate_cache_key self method_name args kwargs)
                \<and> mode self = CACHE_WITH_FALLBACK
                \<and> (\<exists>r. res = Inr r
                       \<and> disk w' q = Some (File (Document
                            (cache_data self (generate_cache_key self method_name args kwargs) r))))
                \<and> backend_calls w' = backend_calls w @ [(method_name, args, kwargs)]))
       \<and> (mode self = CACHE_ONLY \<longrightarrow> file_at (disk w') = file_at (disk w))
       \<and> (tree_shaped (disk w) \<longrightarrow> (\<exists>v. res = Inr v) \<longrightarrow> backend_calls w' = backend_calls w \<longrightarrow>
            disk w' = disk w)
       \<and> (\<forall>proto rp md dir fs self' fs'. init proto rp md dir fs = Inr (self', fs') \<longrightarrow>
            node_at fs' dir = Some Dir \<and> file_at fs' = file_at fs)"
proof -
  let ?k = "generate_cache_key self method_name args kwargs"
  let ?p = "cache_path self ?k"
  have construction: "\<forall>proto rp md dir fs self' fs'.
      init proto rp md dir fs = Inr ((self' :: 'c replay_provider), fs') \<longrightarrow>
        node_at fs' dir = Some Dir \<and> file_at fs' = file_at fs"
    by (auto simp: init_Inr dest: mkdir_parents_target mkdir_parents_file_at)
  show ?thesis
  proof (cases "method_name \<in> set (routes self)")
    case False
    with assms have "w' = w" and "\<exists>e. res = Inl e" by (auto simp: acall_unknown)
    with construction show ?thesis by auto
  next
    case True
    show ?thesis
    proof (cases "mkdir_parents (disk w) (namespace_dir self)")
      case (Inl e)
      from acall_mkdir_fails [OF Inl assms] construction show ?thesis by auto
    next
      case (Inr fs1)
      note shape = acall_shape [OF True Inr assms]
      note frame = mkdir_parents_frame [OF Inr]
      have off: "?p \<notin> set (way [] (namespace_dir self))" by (rule cache_path_off_way)
      have part1: "\<forall>q. disk w' q = disk w q
            \<or> (q \<in> set (way [] (namespace_dir self)) \<and> disk w q = None \<and> disk w' q = Some Dir)
            \<or> (q = ?p \<and> mode self = CACHE_WITH_FALLBACK
                \<and> (\<exists>r. res = Inr r \<and> disk w' q = Some (File (Document (cache_data self ?k r))))
                \<and> backend_calls w' = backend_calls w @ [(method_name, args, kwargs)])"
      proof
        fix q
        from shape show "disk w' q = disk w q
            \<or> (q \<in> set (way [] (namespace_dir self)) \<and> disk w q = None \<and> disk w' q = Some Dir)
            \<or> (q = ?p \<and> mode self = CACHE_WITH_FALLBACK
                \<and> (\<exists>r. res = Inr r \<and> disk w' q = Some (File (Document (cache_data self ?k r))))
                \<and> backend_calls w' = backend_calls w @ [(method_name, args, kwargs)])"
          using frame [of q] by (cases "q = ?p") auto
      qed
      have part2: "mode self = CACHE_ONLY \<longrightarrow> file_at (disk w') = file_at (disk w)"
        using shape mkdir_parents_file_at [OF Inr] by auto
      have part3: "tree_shaped (disk w) \<longrightarrow> (\<exists>v. res = Inr v) \<longrightarrow>
            backend_calls w' = backend_calls w \<longrightarrow> disk w' = disk w"
      proof (intro impI)
        assume tree: "tree_shaped (disk w)" and val: "\<exists>v. res = Inr v"
          and quiet: "backend_calls w' = backend_calls w"
        from shape val quiet have d: "disk w' = fs1" and ex: "disk w ?p \<noteq> None" by auto
        from ex have "disk w (namespace_dir self @ [?k @ ''.json'']) \<noteq> None"
          by (simp add: cache_path_snoc)
        from mkdir_parents_noop [OF tree_shaped_parent_dirs [OF tree this]] Inr
        have "fs1 = disk w" by simp
        with d show "disk w' = disk w" by simp
      qed
      from part1 part2 part3 construction show ?thesis by blast
    qed
  qed
qed

theorem invoke_disk_frame_witness:
  "tree_shaped (disk (world_with (stored_record (JObj [(''status'', JStr ''OK'')]) ''HealthInfo'')))
   \<and> mode (mock_replay CACHE_ONLY) = CACHE_ONLY
   \<and> fst (acall demo_registry (mock_replay CACHE_ONLY) ''completion'' [] hello_kwargs
        (world_with (stored_record (JObj [(''status'', JStr ''OK'')]) ''HealthInfo'')))
      = Inr (PDict [(PStr ''status'', PStr ''OK'')])
   \<and> backend_calls (snd (acall demo_registry (mock_replay CACHE_ONLY) ''completion'' [] hello_kwargs
        (world_with (stored_record (JObj [(''status'', JStr ''OK'')]) ''HealthInfo''))))
      = backend_calls (world_with (stored_record (JObj [(''status'', JStr ''OK'')]) ''HealthInfo''))
   \<and> disk (snd (acall demo_registry (mock_replay CACHE_ONLY) ''completion'' [] hello_kwargs
        (world_with (stored_record (JObj [(''status'', JStr ''OK'')]) ''HealthInfo''))))
      = disk (world_with (stored_record (JObj [(''status'', JStr ''OK'')]) ''HealthInfo''))
   \<and> file_at (disk (snd (acall demo_registry (mock_replay CACHE_ONLY) ''completion'' [] hello_kwargs
        (world_with (stored_record (JObj [(''status'', JStr ''OK'')]) ''HealthInfo'')))))
      = file_at (disk (world_with (stored_record (JObj [(''status'', JStr ''OK'')]) ''HealthInfo'')))"
proof -
  let ?w = "world_with (stored_record (JObj [(''status'', JStr ''OK'')]) ''HealthInfo'')"
  let ?self = "mock_replay CACHE_ONLY"
  let ?call = "acall demo_registry ?self ''completion'' [] hello_kwargs ?w"
  have a: "tree_shaped (disk ?w)" by (simp add: world_with_def tree_shaped_hello)
  have b: "mode ?self = CACHE_ONLY" by (simp add: mock_replay_def)
  have r: "''completion'' \<in> set (routes ?self)" by (simp add: mock_replay_def)
  have "disk ?w (cache_path ?self (generate_cache_key ?self ''completion'' [] hello_kwargs))
          = Some (File (Document (stored_record (JObj [(''status'', JStr ''OK'')]) ''HealthInfo'')))"
    by (simp add: hello_key hello_path world_with_def)
  from load_present [OF a this, of demo_registry]
  have "load_from_cache demo_registry ?self
          (generate_cache_key ?self ''completion'' [] hello_kwargs) (disk ?w)
          = (Inr (PDict [(PStr ''status'', PStr ''OK'')]), disk ?w)"
    by (simp add: health_record_decodes)
  from acall_hit [OF r this] have c: "fst ?call = Inr (PDict [(PStr ''status'', PStr ''OK'')])"
    and d: "backend_calls (snd ?call) = backend_calls ?w" by simp_all
  have e: "?call = (fst ?call, snd ?call)" by simp
  note th = invoke_disk_frame [OF e]
  from th a c d have f: "disk (snd ?call) = disk ?w" by blast
  from th b have g: "file_at (disk (snd ?call)) = file_at (disk ?w)" by blast
  from a b c d f g show ?thesis by blast
qed

text \<open>
  Claim C4 as stated fails at the first invocation after construction: on an empty
  disk \<^verbatim>\<open>__init__\<close> has made the cache root, and a \<^verbatim>\<open>CACHE_ONLY\<close> miss makes the
  namespace directory although nothing is written.
\<close>

theorem invoke_disk_frame_counterexample:
  "init mock_protocol (Some mock_real_provider) CACHE_ONLY [''tmp'', ''cache''] Map.empty
     = Inr (mock_replay CACHE_ONLY, disk root_world)
   \<and> fst (acall no_registry (mock_replay CACHE_ONLY) ''completion'' [] hello_kwargs root_world)
     = Inl (RuntimeError
         ''Cache miss for mockinference_MockRealProvider_completion_4779be7f and mode is CACHE_ONLY'')
   \<and> disk root_world [''tmp'', ''cache'', ''mockinference'', ''MockRealProvider''] = None
   \<and> disk (snd (acall no_registry (mock_replay CACHE_ONLY) ''completion'' [] hello_kwargs root_world))
        [''tmp'', ''cache'', ''mockinference'', ''MockRealProvider''] = Some Dir"
proof -
  let ?self = "mock_replay CACHE_ONLY"
  let ?k = "generate_cache_key ?self ''completion'' [] hello_kwargs"
  have made: "init mock_protocol (Some mock_real_provider) CACHE_ONLY [''tmp'', ''cache''] Map.empty
     = Inr (?self, disk root_world)"
    by (simp add: init_def bind_def mkdir_parents_def mock_replay_def mock_protocol_def root_world_def)
  have r: "''completion'' \<in> set (routes ?self)" and m: "mode ?self = CACHE_ONLY"
    by (simp_all add: mock_replay_def)
  have clear: "clear_way (disk root_world) (namespace_dir ?self)"
    by (simp add: mock_namespace clear_way_def file_at_def root_world_def hello_dir_def)
  have absent: "disk root_world (cache_path ?self ?k) = None"
    by (simp add: hello_key hello_path hello_file_def hello_dir_def root_world_def)
  from load_absent [OF clear absent, of no_registry] obtain fs1 where
    mk: "mkdir_parents (disk root_world) (namespace_dir ?self) = Inr fs1" and
    ld: "load_from_cache no_registry ?self ?k (disk root_world) = (Inr PNone, fs1)" by blast
  from mkdir_parents_target [OF mk] have dir: "fs1 hello_dir = Some Dir"
    by (simp add: mock_namespace node_at_def hello_dir_def)
  from acall_miss_cache_only [OF r ld m] dir made show ?thesis
    by (simp add: hello_key hello_dir_def root_world_def)
qed

subsection \<open>C5: the backend raises\<close>

text \<open>
  Claim C5. When the lookup of a fallback-mode invocation finds nothing and the real
  provider raises, the invocation raises that very exception, after exactly one call of
  the provider, and no cache record is written: the regular files on disk are the same
  as before.
\<close>

theorem backend_error_propagates:
  assumes "method_name \<in> set (routes self)"
    and "mode self = CACHE_WITH_FALLBACK"
    and "real_provider self = Some rp"
    and "has_attr rp method_name"
    and "cache_miss reg self (generate_cache_key self method_name args kwargs) (disk w)"
    and "invoke_method rp method_name args kwargs (backend w) = (Inl e, b)"
  shows "fst (acall reg self method_name args kwargs w) = Inl e
       \<and> file_at (disk (snd (acall reg self method_name args kwargs w))) = file_at (disk w)
       \<and> backend_calls (snd (acall reg self method_name args kwargs w))
           = backend_calls w @ [(method_name, args, kwargs)]"
proof -
  let ?k = "generate_cache_key self method_name args kwargs"
  have files: "file_at (snd (load_from_cache reg self ?k (disk w))) = file_at (disk w)"
    by (rule load_from_cache_file_at)
  from acall_miss_raise [OF assms(1) cache_miss_load [OF assms(5)] assms(2,3,4,6)] files
  show ?thesis by simp
qed

theorem backend_error_propagates_witness:
  "''completion'' \<in> set (routes failing_replay)
   \<and> mode failing_replay = CACHE_WITH_FALLBACK
   \<and> real_provider failing_replay = Some failing_provider
   \<and> has_attr failing_provider ''completion''
   \<and> cache_miss no_registry failing_replay
        (generate_cache_key failing_replay ''completion'' [] hello_kwargs) (disk fresh_world)
   \<and> invoke_method failing_provider ''completion'' [] hello_kwargs (backend fresh_world)
        = (Inl (OtherError ''ConnectionError'' ''backend unreachable''), 1)
   \<and> fst (acall no_registry failing_replay ''completion'' [] hello_kwargs fresh_world)
        = Inl (OtherError ''ConnectionError'' ''backend unreachable'')
   \<and> file_at (disk (snd (acall no_registry failing_replay ''completion'' [] hello_kwargs fresh_world)))
        = file_at Map.empty
   \<and> backend_calls (snd (acall no_registry failing_replay ''completion'' [] hello_kwargs fresh_world))
        = [(''completion'', [], hello_kwargs)]"
proof -
  have a: "''completion'' \<in> set (routes failing_replay)" by (simp add: failing_replay_def)
  have b: "mode failing_replay = CACHE_WITH_FALLBACK" by (simp add: failing_replay_def)
  have c: "real_provider failing_replay = Some failing_provider" by (simp add: failing_replay_def)
  have d: "has_attr failing_provider ''completion''" by (simp add: failing_provider_def)
  have e: "cache_miss no_registry failing_replay
        (generate_cache_key failing_replay ''completion'' [] hello_kwargs) (disk fresh_world)"
    by (rule cache_miss_absent) (simp_all add: fresh_world_def clear_way_empty)
  have f: "invoke_method failing_provider ''completion'' [] hello_kwargs (backend fresh_world)
        = (Inl (OtherError ''ConnectionError'' ''backend unreachable''), 1)"
    by (simp add: failing_provider_def fresh_world_def)
  from backend_error_propagates [OF a b c d e f] a b c d e f
  show ?thesis by (simp add: fresh_world_def)
qed

subsection \<open>C6: records that cannot be reconstructed\<close>

text \<open>
  Claim C6. For a stored record (a JSON object whose \<^verbatim>\<open>metadata\<close>, if present, is an
  object) whose \<^verbatim>\<open>response_type\<close> is not one of the registered names, or whose
  reconstruction fails (the constructor raises, or the payload is no mapping),
  \<^verbatim>\<open>_load_from_cache\<close> returns the raw payload of the record and raises nothing.
\<close>

theorem unknown_type_degrades_to_raw:
  assumes "tree_shaped fs"
    and "fs (cache_path self k) = Some (File (Document (JObj kvs)))"
    and "py_get (JObj kvs) ''response'' JNull = Inr response_data"
    and "py_get (JObj kvs) ''metadata'' (JObj []) = Inr (JObj md)"
    and "py_get (JObj md) ''response_type'' JNull = Inr response_type"
    and "(\<forall>name. response_type = JStr name \<longrightarrow> registered_ctor reg name = None)
         \<or> (\<exists>name ctor. response_type = JStr name \<and> registered_ctor reg name = Some ctor
               \<and> construct ctor response_data = None)"
  shows "load_from_cache reg self k fs = (Inr (of_json response_data), fs)"
proof -
  have "reconstruct reg response_type response_data = None"
  proof (cases "\<exists>name. response_type = JStr name")
    case True
    then obtain name where "response_type = JStr name" by blast
    with assms(6) show ?thesis by (auto simp: reconstruct_registered)
  next
    case False
    then show ?thesis by (simp add: reconstruct_not_str)
  qed
  then have "decode_response reg response_type response_data = of_json response_data"
    by (simp add: decode_response_def)
  with assms(3,4,5) have "decode_record reg (JObj kvs) = Inr (of_json response_data)"
    by (simp add: decode_record_def bind_def)
  with load_present [OF assms(1,2), of reg] show ?thesis by simp
qed

theorem unknown_type_degrades_to_raw_witness:
  "tree_shaped (disk (world_with (stored_record (JObj [(''status'', JStr ''OK'')]) ''HealthInfo'')))
   \<and> disk (world_with (stored_record (JObj [(''status'', JStr ''OK'')]) ''HealthInfo''))
        (cache_path (mock_replay CACHE_ONLY) ''mockinference_MockRealProvider_completion_4779be7f'')
      = Some (File (Document (stored_record (JObj [(''status'', JStr ''OK'')]) ''HealthInfo'')))
   \<and> registered_ctor demo_registry ''HealthInfo'' = None
   \<and> fst (load_from_cache demo_registry (mock_replay CACHE_ONLY)
        ''mockinference_MockRealProvider_completion_4779be7f''
        (disk (world_with (stored_record (JObj [(''status'', JStr ''OK'')]) ''HealthInfo''))))
      = Inr (PDict [(PStr ''status'', PStr ''OK'')])"
proof -
  let ?rec = "stored_record (JObj [(''status'', JStr ''OK'')]) ''HealthInfo''"
  let ?md = "[(''provider_type'', JStr ''MockRealProvider''),
              (''api_name'', JStr ''MockInferenceProvider''),
              (''response_type'', JStr ''HealthInfo'')]"
  let ?kvs = "[(''cache_key'', JStr ''mockinference_MockRealProvider_completion_4779be7f''),
               (''response'', JObj [(''status'', JStr ''OK'')]),
               (''metadata'', JObj ?md)]"
  have a: "tree_shaped (disk (world_with ?rec))" by (simp add: world_with_def tree_shaped_hello)
  have b: "disk (world_with ?rec)
        (cache_path (mock_replay CACHE_ONLY) ''mockinference_MockRealProvider_completion_4779be7f'')
      = Some (File (Document (JObj ?kvs)))"
    by (simp add: hello_path world_with_def stored_record_def)
  have c: "py_get (JObj ?kvs) ''response'' JNull = Inr (JObj [(''status'', JStr ''OK'')])"
    by (simp add: py_get_def)
  have d: "py_get (JObj ?kvs) ''metadata'' (JObj []) = Inr (JObj ?md)"
    by (simp add: py_get_def)
  have e: "py_get (JObj ?md) ''response_type'' JNull = Inr (JStr ''HealthInfo'')"
    by (simp add: py_get_def)
  have f: "registered_ctor demo_registry ''HealthInfo'' = None"
    by (simp add: registered_ctor_def)
  from f have g: "(\<forall>name. JStr ''HealthInfo'' = JStr name \<longrightarrow> registered_ctor demo_registry name = None)
         \<or> (\<exists>name ctor. JStr ''HealthInfo'' = JStr name \<and> registered_ctor demo_registry name = Some ctor
               \<and> construct ctor (JObj [(''status'', JStr ''OK'')]) = None)"
    by simp
  from unknown_type_degrades_to_raw [OF a b c d e g] a b f
  show ?thesis by (simp add: stored_record_def)
qed

subsection \<open>C7: the codec round trip\<close>




subsection \<open>C8: calls with different arguments\<close>

text \<open>
  Claim C8, as the code has it. Two invocations of an operation whose keys differ, made
  in fallback mode with nothing stored for either, reach the provider twice and leave
  two record files at two different paths. Different arguments do not always have
  different keys: the key keeps the first eight hexadecimal digits of the MD5 digest of
  the arguments' rendering.
\<close>

theorem distinct_keys_distinct_records:
  assumes "method_name \<in> set (routes self)"
    and "mode self = CACHE_WITH_FALLBACK"
    and "real_provider self = Some rp"
    and "has_attr rp method_name"
    and "generate_cache_key self method_name args1 kwargs1
           \<noteq> generate_cache_key self method_name args2 kwargs2"
    and "clear_way (disk w) (namespace_dir self)"
    and "disk w (cache_path self (generate_cache_key self method_name args1 kwargs1)) = None"
    and "disk w (cache_path self (generate_cache_key self method_name args2 kwargs2)) = None"
    and "invoke_method rp method_name args1 kwargs1 (backend w) = (Inr r1, b1)"
    and "invoke_method rp method_name args2 kwargs2 b1 = (Inr r2, b2)"
    and "acall reg self method_name args1 kwargs1 w = (res1, w1)"
    and "acall reg self method_name args2 kwargs2 w1 = (res2, w2)"
  shows "cache_path self (generate_cache_key self method_name args1 kwargs1)
           \<noteq> cache_path self (generate_cache_key self method_name args2 kwargs2)
       \<and> res1 = Inr r1 \<and> res2 = Inr r2
       \<and> backend_calls w2
           = backend_calls w @ [(method_name, args1, kwargs1), (method_name, args2, kwargs2)]
       \<and> file_at (disk w2) =
           (file_at (disk w))
             (cache_path self (generate_cache_key self method_name args1 kwargs1)
                \<mapsto> Document (cache_data self (generate_cache_key self method_name args1 kwargs1) r1),
              cache_path self (generate_cache_key self method_name args2 kwargs2)
                \<mapsto> Document (cache_data self (generate_cache_key self method_name args2 kwargs2) r2))"
proof -
  let ?k1 = "generate_cache_key self method_name args1 kwargs1"
  let ?k2 = "generate_cache_key self method_name args2 kwargs2"
  let ?p1 = "cache_path self ?k1"
  let ?p2 = "cache_path self ?k2"
  have paths: "?p1 \<noteq> ?p2" using assms(5) by (simp add: cache_path_inj)
  from first_call [OF assms(1,2,3,4,6,7,9), of reg] assms(11) obtain fs1 where
    mk1: "mkdir_parents (disk w) (namespace_dir self) = Inr fs1" and
    res1: "res1 = Inr r1" and
    w1: "w1 = \<lparr>disk = fs1(?p1 \<mapsto> File (Document (cache_data self ?k1 r1))), backend = b1,
               backend_calls = backend_calls w @ [(method_name, args1, kwargs1)]\<rparr>"
    by auto
  have clear1: "clear_way (disk w1) (namespace_dir self)"
    using clear_way_written [OF assms(6) mk1] w1 by simp
  have "fs1 ?p2 = None"
    using mkdir_parents_outside [OF mk1 cache_path_off_way] assms(8) by simp
  with paths w1 have absent1: "disk w1 ?p2 = None" by simp
  have inv2: "invoke_method rp method_name args2 kwargs2 (backend w1) = (Inr r2, b2)"
    using assms(10) w1 by simp
  from first_call [OF assms(1,2,3,4) clear1 absent1 inv2, of reg] assms(12) obtain fs2 where
    mk2: "mkdir_parents (disk w1) (namespace_dir self) = Inr fs2" and
    res2: "res2 = Inr r2" and
    w2: "w2 = \<lparr>disk = fs2(?p2 \<mapsto> File (Document (cache_data self ?k2 r2))), backend = b2,
               backend_calls = backend_calls w1 @ [(method_name, args2, kwargs2)]\<rparr>"
    by auto
  have "file_at fs2 = file_at (disk w1)" by (rule mkdir_parents_file_at [OF mk2])
  moreover have "file_at fs1 = file_at (disk w)" by (rule mkdir_parents_file_at [OF mk1])
  ultimately have files: "file_at (disk w2) =
      (file_at (disk w))(?p1 \<mapsto> Document (cache_data self ?k1 r1),
                         ?p2 \<mapsto> Document (cache_data self ?k2 r2))"
    using w1 w2 by (auto simp: file_at_def fun_eq_iff)
  from paths res1 res2 w1 w2 files show ?thesis by simp
qed

theorem distinct_keys_distinct_records_witness:
  "generate_cache_key (mock_replay CACHE_WITH_FALLBACK) ''completion'' [] hello_kwargs
     \<noteq> generate_cache_key (mock_replay CACHE_WITH_FALLBACK) ''completion'' [] swapped_kwargs
   \<and> clear_way (disk fresh_world) (namespace_dir (mock_replay CACHE_WITH_FALLBACK))
   \<and> fst (acall no_registry (mock_replay CACHE_WITH_FALLBACK) ''completion'' [] hello_kwargs
        fresh_world)
      = Inr (PDict [(PStr ''content'', PStr ''Response to: Hello world''),
                    (PStr ''model'', PStr ''test-model''),
                    (PStr ''call_number'', PInt 1)])
   \<and> fst (acall no_registry (mock_replay CACHE_WITH_FALLBACK) ''completion'' [] swapped_kwargs
        (snd (acall no_registry (mock_replay CACHE_WITH_FALLBACK) ''completion'' [] hello_kwargs
           fresh_world)))
      = Inr (PDict [(PStr ''content'', PStr ''Response to: Hello world''),
                    (PStr ''model'', PStr ''test-model''),
                    (PStr ''call_number'', PInt 2)])
   \<and> backend_calls
        (snd (acall no_registry (mock_replay CACHE_WITH_FALLBACK) ''completion'' [] swapped_kwargs
           (snd (acall no_registry (mock_replay CACHE_WITH_FALLBACK) ''completion'' [] hello_kwargs
              fresh_world))))
      = [(''completion'', [], hello_kwargs), (''completion'', [], swapped_kwargs)]"
proof -
  let ?self = "mock_replay CACHE_WITH_FALLBACK"
  let ?first = "acall no_registry ?self ''completion'' [] hello_kwargs fresh_world"
  let ?second = "acall no_registry ?self ''completion'' [] swapped_kwargs (snd ?first)"
  have a: "''completion'' \<in> set (routes ?self)" by (simp add: mock_replay_def)
  have b: "mode ?self = CACHE_WITH_FALLBACK" by (simp add: mock_replay_def)
  have c: "real_provider ?self = Some mock_real_provider" by (simp add: mock_replay_def)
  have d: "has_attr mock_real_provider ''completion''" by (simp add: mock_real_provider_def)
  have e: "generate_cache_key ?self ''completion'' [] hello_kwargs
             \<noteq> generate_cache_key ?self ''completion'' [] swapped_kwargs"
    by (simp add: hello_key swapped_key)
  have f: "clear_way (disk fresh_world) (namespace_dir ?self)"
    by (simp add: fresh_world_def clear_way_empty)
  have g: "disk fresh_world (cache_path ?self (generate_cache_key ?self ''completion'' [] hello_kwargs))
             = None"
    by (simp add: fresh_world_def)
  have h: "disk fresh_world (cache_path ?self (generate_cache_key ?self ''completion'' [] swapped_kwargs))
             = None"
    by (simp add: fresh_world_def)
  have i: "invoke_method mock_real_provider ''completion'' [] hello_kwargs (backend fresh_world)
      = (Inr (PDict [(PStr ''content'', PStr ''Response to: Hello world''),
                    (PStr ''model'', PStr ''test-model''),
                    (PStr ''call_number'', PInt 1)]), 1)"
    by (simp add: mock_real_provider_def mock_completion_hello fresh_world_def)
  have j: "invoke_method mock_real_provider ''completion'' [] swapped_kwargs 1
      = (Inr (PDict [(PStr ''content'', PStr ''Response to: Hello world''),
                    (PStr ''model'', PStr ''test-model''),
                    (PStr ''call_number'', PInt 2)]), 2)"
    by (simp add: mock_real_provider_def mock_completion_swapped)
  have k: "?first = (fst ?first, snd ?first)" by simp
  have l: "?second = (fst ?second, snd ?second)" by simp
  note th = distinct_keys_distinct_records [OF a b c d e f g h i j k l]
  from th have r1: "fst ?first = Inr (PDict [(PStr ''content'', PStr ''Response to: Hello world''),
                    (PStr ''model'', PStr ''test-model''),
                    (PStr ''call_number'', PInt 1)])" by simp
  from th have r2: "fst ?second = Inr (PDict [(PStr ''content'', PStr ''Response to: Hello world''),
                    (PStr ''model'', PStr ''test-model''),
                    (PStr ''call_number'', PInt 2)])" by simp
  from th have calls: "backend_calls (snd ?second)
      = [(''completion'', [], hello_kwargs), (''completion'', [], swapped_kwargs)]"
    by (simp add: fresh_world_def)
  from e f r1 r2 calls show ?thesis by blast
qed

text \<open>
  Claim C8 as stated fails for two calls of \<^verbatim>\<open>completion\<close> with the contents
  \<^verbatim>\<open>msg 6104\<close> and \<^verbatim>\<open>msg 90004\<close>: the arguments differ, the keys are the same, and the
  second call is answered from the record of the first without reaching the provider.
\<close>

theorem distinct_keys_distinct_records_counterexample:
  "map_of first_kwargs ''content'' \<noteq> map_of second_kwargs ''content''
   \<and> generate_cache_key (mock_replay CACHE_WITH_FALLBACK) ''completion'' [] first_kwargs
       = ''mockinference_MockRealProvider_completion_55f609f6''
   \<and> generate_cache_key (mock_replay CACHE_WITH_FALLBACK) ''completion'' [] second_kwargs
       = ''mockinference_MockRealProvider_completion_55f609f6''
   \<and> backend_calls
        (snd (acall no_registry (mock_replay CACHE_WITH_FALLBACK) ''completion'' [] second_kwargs
           (snd (acall no_registry (mock_replay CACHE_WITH_FALLBACK) ''completion'' [] first_kwargs
              fresh_world))))
      = [(''completion'', [], first_kwargs)]"
proof -
  let ?self = "mock_replay CACHE_WITH_FALLBACK"
  let ?first = "acall no_registry ?self ''completion'' [] first_kwargs fresh_world"
  let ?r = "PDict [(PStr ''content'', PStr ''Response to: msg 6104''),
                   (PStr ''model'', PStr ''test-model''),
                   (PStr ''call_number'', PInt 1)]"
  have a: "''completion'' \<in> set (routes ?self)" by (simp add: mock_replay_def)
  have same: "generate_cache_key ?self ''completion'' [] second_kwargs
                = generate_cache_key ?self ''completion'' [] first_kwargs"
    by (simp add: first_key second_key)
  have inv: "invoke_method mock_real_provider ''completion'' [] first_kwargs (backend fresh_world)
               = (Inr ?r, 1)"
    by (simp add: mock_real_provider_def mock_completion_def first_kwargs_def py_str_def
        fresh_world_def)
  from first_call [of "''completion''" ?self mock_real_provider fresh_world "[]" first_kwargs
      ?r 1 no_registry] inv
  obtain fs1 where
    mk: "mkdir_parents (disk fresh_world) (namespace_dir ?self) = Inr fs1" and
    first: "?first = (Inr ?r,
        \<lparr>disk = fs1(cache_path ?self (generate_cache_key ?self ''completion'' [] first_kwargs)
             \<mapsto> File (Document (cache_data ?self
                   (generate_cache_key ?self ''completion'' [] first_kwargs) ?r))),
         backend = 1,
         backend_calls = backend_calls fresh_world @ [(''completion'', [], first_kwargs)]\<rparr>)"
    by (auto simp: mock_replay_def mock_real_provider_def fresh_world_def clear_way_empty)
  have d1: "disk (snd ?first)
      = fs1(cache_path ?self (generate_cache_key ?self ''completion'' [] second_kwargs)
             \<mapsto> File (Document (cache_data ?self
                   (generate_cache_key ?self ''completion'' [] second_kwargs) ?r)))"
    using first same by simp
  from replay_call [OF a mk d1, of no_registry] first
  have "backend_calls (snd (acall no_registry ?self ''completion'' [] second_kwargs (snd ?first)))
          = [(''completion'', [], first_kwargs)]"
    by (simp add: fresh_world_def)
  moreover have "map_of first_kwargs ''content'' \<noteq> map_of second_kwargs ''content''"
    by (simp add: first_kwargs_def second_kwargs_def)
  ultimately show ?thesis by (simp add: first_key second_key)
qed

subsection \<open>C9: a stored record without a payload\<close>

text \<open>
  Claim C9. A record file whose \<^verbatim>\<open>response\<close> is JSON null (or missing) is treated as a
  miss although the file exists: in \<^verbatim>\<open>CACHE_ONLY\<close> mode the invocation raises the
  cache-miss error and changes nothing; in \<^verbatim>\<open>CACHE_WITH_FALLBACK\<close> mode, with a real
  provider that has the method and returns, the provider is called once, its result is
  returned and the record file is overwritten with the new record. The record is taken
  as the file format has it: a JSON object whose \<^verbatim>\<open>metadata\<close>, if present, is an object.
\<close>

theorem null_response_is_miss:
  assumes "method_name \<in> set (routes self)"
    and "tree_shaped (disk w)"
    and "disk w (cache_path self (generate_cache_key self method_name args kwargs))
           = Some (File (Document (JObj kvs)))"
    and "py_get (JObj kvs) ''response'' JNull = Inr JNull"
    and "py_get (JObj kvs) ''metadata'' (JObj []) = Inr (JObj md)"
  shows "(mode self = CACHE_ONLY \<longrightarrow>
            acall reg self method_name args kwargs w =
              (Inl (RuntimeError (''Cache miss for '' @ generate_cache_key self method_name args kwargs
                                  @ '' and mode is CACHE_ONLY'')), w))
       \<and> (mode self = CACHE_WITH_FALLBACK \<longrightarrow>
            (\<forall>rp r b. real_provider self = Some rp \<longrightarrow> has_attr rp method_name \<longrightarrow>
               invoke_method rp method_name args kwargs (backend w) = (Inr r, b) \<longrightarrow>
               acall reg self method_name args kwargs w =
                 (Inr r,
                  \<lparr>disk = (disk w)(cache_path self (generate_cache_key self method_name args kwargs)
                             \<mapsto> File (Document (cache_data self
                                   (generate_cache_key self method_name args kwargs) r))),
                   backend = b,
                   backend_calls = backend_calls w @ [(method_name, args, kwargs)]\<rparr>)))"
proof -
  let ?k = "generate_cache_key self method_name args kwargs"
  have "decode_record reg (JObj kvs) = Inr PNone"
    using assms(4,5) by (simp add: decode_record_def bind_def py_get_def decode_response_def)
  with load_present [OF assms(2,3), of reg]
  have miss: "load_from_cache reg self ?k (disk w) = (Inr PNone, disk w)" by simp
  have only: "mode self = CACHE_ONLY \<Longrightarrow> ?thesis"
    using acall_miss_cache_only [OF assms(1) miss] by simp
  have fallback: "mode self = CACHE_WITH_FALLBACK \<Longrightarrow> ?thesis"
    using acall_miss_return [OF assms(1) miss _ _ _ _ save_present [OF assms(2,3)]]
    by auto
  from only fallback show ?thesis by (cases "mode self") auto
qed

theorem null_response_is_miss_witness:
  "''completion'' \<in> set (routes (mock_replay CACHE_WITH_FALLBACK))
   \<and> tree_shaped (disk (world_with (stored_record JNull ''NoneType'')))
   \<and> acall no_registry (mock_replay CACHE_WITH_FALLBACK) ''completion'' [] hello_kwargs
        (world_with (stored_record JNull ''NoneType''))
      = (Inr (PDict [(PStr ''content'', PStr ''Response to: Hello world''),
                     (PStr ''model'', PStr ''test-model''),
                     (PStr ''call_number'', PInt 1)]),
         \<lparr>disk = hello_tree(hello_file \<mapsto> File (Document
             (cache_data (mock_replay CACHE_WITH_FALLBACK)
                ''mockinference_MockRealProvider_completion_4779be7f''
                (PDict [(PStr ''content'', PStr ''Response to: Hello world''),
                        (PStr ''model'', PStr ''test-model''),
                        (PStr ''call_number'', PInt 1)])))),
          backend = 1,
          backend_calls = [(''completion'', [], hello_kwargs)]\<rparr>)
   \<and> acall no_registry (mock_replay CACHE_ONLY) ''completion'' [] hello_kwargs
        (world_with (stored_record JNull ''NoneType''))
      = (Inl (RuntimeError
           ''Cache miss for mockinference_MockRealProvider_completion_4779be7f and mode is CACHE_ONLY''),
         world_with (stored_record JNull ''NoneType''))"
proof -
  let ?w = "world_with (stored_record JNull ''NoneType'')"
  let ?self = "mock_replay CACHE_WITH_FALLBACK"
  let ?only = "mock_replay CACHE_ONLY"
  have a: "''completion'' \<in> set (routes ?self)" by (simp add: mock_replay_def)
  have b: "tree_shaped (disk ?w)" by (simp add: world_with_def tree_shaped_hello)
  have c: "disk ?w (cache_path ?self (generate_cache_key ?self ''completion'' [] hello_kwargs))
             = Some (File (Document (JObj
                 [(''cache_key'', JStr ''mockinference_MockRealProvider_completion_4779be7f''),
                  (''response'', JNull),
                  (''metadata'',
                   JObj [(''provider_type'', JStr ''MockRealProvider''),
                         (''api_name'', JStr ''MockInferenceProvider''),
                         (''response_type'', JStr ''NoneType'')])])))"
    by (simp add: hello_key hello_path world_with_def stored_record_def)
  have d: "py_get (JObj
                 [(''cache_key'', JStr ''mockinference_MockRealProvider_completion_4779be7f''),
                  (''response'', JNull),
                  (''metadata'',
                   JObj [(''provider_type'', JStr ''MockRealProvider''),
                         (''api_name'', JStr ''MockInferenceProvider''),
                         (''response_type'', JStr ''NoneType'')])]) ''response'' JNull = Inr JNull"
    by (simp add: py_get_def)
  have e: "py_get (JObj
                 [(''cache_key'', JStr ''mockinference_MockRealProvider_completion_4779be7f''),
                  (''response'', JNull),
                  (''metadata'',
                   JObj [(''provider_type'', JStr ''MockRealProvider''),
                         (''api_name'', JStr ''MockInferenceProvider''),
                         (''response_type'', JStr ''NoneType'')])]) ''metadata'' (JObj [])
           = Inr (JObj [(''provider_type'', JStr ''MockRealProvider''),
                         (''api_name'', JStr ''MockInferenceProvider''),
                         (''response_type'', JStr ''NoneType'')])"
    by (simp add: py_get_def)
  have g: "mode ?self = CACHE_WITH_FALLBACK" "real_provider ?self = Some mock_real_provider"
    by (simp_all add: mock_replay_def)
  have h: "has_attr mock_real_provider ''completion''" by (simp add: mock_real_provider_def)
  have i: "invoke_method mock_real_provider ''completion'' [] hello_kwargs (backend ?w)
        = (Inr (PDict [(PStr ''content'', PStr ''Response to: Hello world''),
                     (PStr ''model'', PStr ''test-model''),
                     (PStr ''call_number'', PInt 1)]), 1)"
    by (simp add: mock_real_provider_def mock_completion_def hello_kwargs_def world_with_def py_str_def)
  from null_response_is_miss [OF a b c d e, of no_registry] g h i
  have fallback: "acall no_registry ?self ''completion'' [] hello_kwargs ?w
      = (Inr (PDict [(PStr ''content'', PStr ''Response to: Hello world''),
                     (PStr ''model'', PStr ''test-model''),
                     (PStr ''call_number'', PInt 1)]),
         \<lparr>disk = hello_tree(hello_file \<mapsto> File (Document
             (cache_data ?self ''mockinference_MockRealProvider_completion_4779be7f''
                (PDict [(PStr ''content'', PStr ''Response to: Hello world''),
                        (PStr ''model'', PStr ''test-model''),
                        (PStr ''call_number'', PInt 1)])))),
          backend = 1,
          backend_calls = [(''completion'', [], hello_kwargs)]\<rparr>)"
    by (simp add: hello_path hello_key world_with_def)
  have a': "''completion'' \<in> set (routes ?only)" by (simp add: mock_replay_def)
  have c': "disk ?w (cache_path ?only (generate_cache_key ?only ''completion'' [] hello_kwargs))
             = Some (File (Document (JObj
                 [(''cache_key'', JStr ''mockinference_MockRealProvider_completion_4779be7f''),
                  (''response'', JNull),
                  (''metadata'',
                   JObj [(''provider_type'', JStr ''MockRealProvider''),
                         (''api_name'', JStr ''MockInferenceProvider''),
                         (''response_type'', JStr ''NoneType'')])])))"
    by (simp add: hello_key hello_path world_with_def stored_record_def)
  have k: "mode ?only = CACHE_ONLY" by (simp add: mock_replay_def)
  from null_response_is_miss [OF a' b c' d e, of no_registry] k
  have only: "acall no_registry ?only ''completion'' [] hello_kwargs ?w
      = (Inl (RuntimeError
           ''Cache miss for mockinference_MockRealProvider_completion_4779be7f and mode is CACHE_ONLY''),
         ?w)"
    by (simp add: hello_key)
  from a b fallback only show ?thesis by blast
qed

subsection \<open>C10: the interface name in the record and in the path\<close>

text \<open>
  Claim C10, as the code has it. A record written by \<^verbatim>\<open>_save_to_cache\<close> stores the name
  of the protocol class as \<^verbatim>\<open>api_name\<close>, and it lies at
  \<^verbatim>\<open>cache_dir/a/provider_type/key.json\<close> where \<open>a\<close> is that name in lower case with
  every \<^verbatim>\<open>provider\<close> removed.
\<close>

theorem record_path_normalises_api_name:
  assumes "save_to_cache self k r fs = (Inr (), fs')"
  shows "fs' (joinpath
               (joinpath
                 (joinpath (cache_dir self)
                   (py_replace ''provider'' [] (py_lower (proto_name (protocol self)))))
                 (provider_type self))
               (k @ ''.json''))
           = Some (File (Document (cache_data self k r)))
       \<and> bind (py_get (cache_data self k r) ''metadata'' (JObj []))
            (\<lambda>metadata. py_get metadata ''api_name'' JNull)
           = Inr (JStr (proto_name (protocol self)))"
proof (cases "mkdir_parents fs (namespace_dir self)")
  case (Inl e)
  with assms show ?thesis by (simp add: save_to_cache_Inl)
next
  case (Inr fs1)
  with assms have "fs' = fs1(cache_path self k \<mapsto> File (Document (cache_data self k r)))"
    by (auto simp: save_to_cache_Inr split: if_splits)
  then show ?thesis
    by (simp add: cache_path_def namespace_dir_def api_name_def cache_data_def py_get_def bind_def)
qed

theorem record_path_normalises_api_name_witness:
  "fst (save_to_cache (mock_replay CACHE_WITH_FALLBACK) ''key'' (PStr ''ok'') Map.empty) = Inr ()
   \<and> snd (save_to_cache (mock_replay CACHE_WITH_FALLBACK) ''key'' (PStr ''ok'') Map.empty)
        [''tmp'', ''cache'', ''mockinference'', ''MockRealProvider'', ''key.json'']
      = Some (File (Document (cache_data (mock_replay CACHE_WITH_FALLBACK) ''key'' (PStr ''ok''))))
   \<and> bind (py_get (cache_data (mock_replay CACHE_WITH_FALLBACK) ''key'' (PStr ''ok''))
             ''metadata'' (JObj []))
        (\<lambda>metadata. py_get metadata ''api_name'' JNull)
      = Inr (JStr ''MockInferenceProvider'')"
proof -
  let ?self = "mock_replay CACHE_WITH_FALLBACK"
  let ?save = "save_to_cache ?self ''key'' (PStr ''ok'') Map.empty"
  from save_absent [of Map.empty ?self "''key''" "PStr ''ok''"]
  have a: "fst ?save = Inr ()" by (auto simp: clear_way_empty)
  then have b: "?save = (Inr (), snd ?save)" by (simp add: prod_eq_iff)
  have c: "cache_dir ?self = [''tmp'', ''cache'']" "proto_name (protocol ?self) = ''MockInferenceProvider''"
    by (simp_all add: mock_replay_def mock_protocol_def)
  from record_path_normalises_api_name [OF b] a show ?thesis
    by (simp add: mock_api_name mock_provider_type joinpath_def c)
qed

text \<open>
  Claim C10 as stated fails for the protocol of the unit tests: the record stores
  \<^verbatim>\<open>MockInferenceProvider\<close> and lies under the directory \<^verbatim>\<open>mockinference\<close>.
\<close>

theorem record_path_normalises_api_name_counterexample:
  "snd (save_to_cache (mock_replay CACHE_WITH_FALLBACK) ''key'' (PStr ''ok'') Map.empty)
      [''tmp'', ''cache'', ''mockinference'', ''MockRealProvider'', ''key.json'']
     = Some (File (Document (JObj
         [(''cache_key'', JStr ''key''),
          (''response'', JStr ''ok''),
          (''metadata'',
           JObj [(''provider_type'', JStr ''MockRealProvider''),
                 (''api_name'', JStr ''MockInferenceProvider''),
                 (''response_type'', JStr ''str'')])])))
   \<and> ''mockinference'' \<noteq> ''MockInferenceProvider''"
proof -
  let ?self = "mock_replay CACHE_WITH_FALLBACK"
  from save_absent [of Map.empty ?self "''key''" "PStr ''ok''"] obtain fs1 where
    "save_to_cache ?self ''key'' (PStr ''ok'') Map.empty
       = (Inr (), fs1(cache_path ?self ''key''
            \<mapsto> File (Document (cache_data ?self ''key'' (PStr ''ok'')))))"
    by (auto simp: clear_way_empty)
  moreover have "cache_path ?self ''key''
      = [''tmp'', ''cache'', ''mockinference'', ''MockRealProvider'', ''key.json'']"
    by (simp add: cache_path_snoc mock_namespace hello_dir_def)
  moreover have "cache_data ?self ''key'' (PStr ''ok'')
      = JObj [(''cache_key'', JStr ''key''),
          (''response'', JStr ''ok''),
          (''metadata'',
           JObj [(''provider_type'', JStr ''MockRealProvider''),
                 (''api_name'', JStr ''MockInferenceProvider''),
                 (''response_type'', JStr ''str'')])]"
  proof -
    have "proto_name (protocol ?self) = ''MockInferenceProvider''"
      by (simp add: mock_replay_def mock_protocol_def)
    then show ?thesis
      by (simp add: cache_data_def mock_provider_type serialize_def py_str_def py_type_name_def)
  qed
  ultimately show ?thesis by simp
qed

end
